theory Spec2Isabelle
  imports Main "HOL-Library.AList"
begin

section \<open>Data model of \<^verbatim>\<open>cardano_clusterlib/txtools.py\<close>\<close>

text \<open>
  Python strings are \<^typ>\<open>string\<close> (for non-ASCII text: the UTF-8 bytes), Python's
  unbounded integers are \<^typ>\<open>int\<close>. A Python \<^verbatim>\<open>dict\<close> is an association list with
  distinct keys in insertion order: \<^const>\<open>map_of\<close> is the lookup and
  \<^const>\<open>AList.update\<close> is \<^verbatim>\<open>db[k] = v\<close> (overwrite in place, or append a new key).
  Identifiers of the source that start with an underscore lose it, and a variable that
  shares its name with a record field is abbreviated (\<open>amnt\<close> for \<^verbatim>\<open>amount\<close>).
\<close>

text \<open>
  Modelled from the spec: \<^verbatim>\<open>consts.DEFAULT_COIN\<close>, the coin identifier of the base coin
  ("a fixed sentinel value, the ledger's native unit"); the module \<^verbatim>\<open>consts\<close> is not
  part of the sources at hand.
\<close>
definition DEFAULT_COIN :: string where
  "DEFAULT_COIN = ''lovelace''"

text \<open>
  \<^verbatim>\<open>structs.UTXOData\<close> and \<^verbatim>\<open>structs.TxOut\<close>, with the fields that \<^verbatim>\<open>txtools.py\<close>
  reads or writes in the functions modelled here. The datum and reference-script fields
  of \<^verbatim>\<open>TxOut\<close> are read only by the command-line serialisers and are left out.
\<close>
record utxodata =
  utxo_hash :: string
  utxo_ix :: int
  amount :: int
  address :: string
  coin :: string
  decoded_coin :: string
  datum_hash :: string

record txout =
  address :: string
  amount :: int
  coin :: string

text \<open>
  What can be raised: \<^verbatim>\<open>exceptions.CLIError\<close>, Python's own \<^verbatim>\<open>ValueError\<close>,
  \<^verbatim>\<open>KeyError\<close> and \<^verbatim>\<open>TypeError\<close>, and \<open>ExternalError\<close> for whatever an external
  lookup raises.
\<close>
datatype error = CLIError | ValueError | KeyError | TypeError | ExternalError

section \<open>Helpers standing for Python built-ins\<close>

text \<open>\<^verbatim>\<open>str(n)\<close> for an integer, as the f-string \<^verbatim>\<open>f"{rec.utxo_hash}#{rec.utxo_ix}"\<close> renders it.\<close>

definition digit_char :: "nat \<Rightarrow> char" where
  "digit_char d = ''0123456789'' ! d"

function str_nat :: "nat \<Rightarrow> string" where
  "str_nat n = (if n < 10 then [digit_char n] else str_nat (n div 10) @ [digit_char (n mod 10)])"
  by pat_completeness auto
termination
  by (relation "measure (\<lambda>n. n)") auto

declare str_nat.simps [simp del]

definition str_int :: "int \<Rightarrow> string" where
  "str_int i = (if i < 0 then CHR ''-'' # str_nat (nat (- i)) else str_nat (nat i))"

text \<open>\<^verbatim>\<open>functools.reduce(lambda x, y: x + y.amount, recs, 0)\<close>\<close>
definition reduce_amount :: "('a \<Rightarrow> int) \<Rightarrow> 'a list \<Rightarrow> int" where
  "reduce_amount amount_of recs = foldl (\<lambda>x y. x + amount_of y) 0 recs"

text \<open>\<^verbatim>\<open>db.get(key) or []\<close>\<close>
definition get_or_empty :: "('k \<times> 'a list) list \<Rightarrow> 'k \<Rightarrow> 'a list" where
  "get_or_empty db k = (case map_of db k of None \<Rightarrow> [] | Some recs \<Rightarrow> recs)"

text \<open>\<^verbatim>\<open>xs.pop(i)\<close> leaves the list without its element at index \<open>i\<close>.\<close>
definition pop_rest :: "nat \<Rightarrow> 'a list \<Rightarrow> 'a list" where
  "pop_rest i xs = take i xs @ drop (Suc i) xs"

section \<open>Coin grouping\<close>

text \<open>
  The loop body shared by \<^verbatim>\<open>_organize_tx_ins_outs_by_coin\<close> and
  \<^verbatim>\<open>_organize_utxos_by_id\<close>: create the bucket if the key is new, append the record.
\<close>
definition organize_step :: "('a \<Rightarrow> 'k) \<Rightarrow> ('k \<times> 'a list) list \<Rightarrow> 'a \<Rightarrow> ('k \<times> 'a list) list" where
  "organize_step key_of db rec =
     (let db1 = (if map_of db (key_of rec) = None then AList.update (key_of rec) [] db else db)
      in AList.update (key_of rec) (get_or_empty db1 (key_of rec) @ [rec]) db1)"

definition organize_by :: "('a \<Rightarrow> 'k) \<Rightarrow> 'a list \<Rightarrow> ('k \<times> 'a list) list" where
  "organize_by key_of tx_list = foldl (organize_step key_of) [] tx_list"

definition organize_utxos_by_coin :: "utxodata list \<Rightarrow> (string \<times> utxodata list) list" where
  "organize_utxos_by_coin tx_list = organize_by utxodata.coin tx_list"

definition organize_txouts_by_coin :: "txout list \<Rightarrow> (string \<times> txout list) list" where
  "organize_txouts_by_coin tx_list = organize_by txout.coin tx_list"

definition utxo_id :: "utxodata \<Rightarrow> string" where
  "utxo_id rec = utxo_hash rec @ ''#'' @ str_int (utxo_ix rec)"

definition organize_utxos_by_id :: "utxodata list \<Rightarrow> (string \<times> utxodata list) list" where
  "organize_utxos_by_id tx_list = organize_by utxo_id tx_list"

section \<open>Multi-coin UTXO filter\<close>

fun utxos_with_coins_loop ::
  "(string \<times> utxodata list) list \<Rightarrow> string set \<Rightarrow> utxodata list \<Rightarrow> utxodata list \<Rightarrow> string list
   \<Rightarrow> utxodata list" where
  "utxos_with_coins_loop txins_by_id coins [] txins seen_ids = txins"
| "utxos_with_coins_loop txins_by_id coins (rec # rest) txins seen_ids =
     (if utxodata.coin rec \<in> coins \<and> utxo_id rec \<notin> set seen_ids
      then utxos_with_coins_loop txins_by_id coins rest
             (txins @ get_or_empty txins_by_id (utxo_id rec)) (utxo_id rec # seen_ids)
      else utxos_with_coins_loop txins_by_id coins rest txins seen_ids)"

definition get_utxos_with_coins :: "utxodata list \<Rightarrow> string set \<Rightarrow> utxodata list" where
  "get_utxos_with_coins address_utxos coins =
     utxos_with_coins_loop (organize_utxos_by_id address_utxos) coins address_utxos [] []"

section \<open>Greedy fund collector\<close>

fun collect_loop :: "utxodata list \<Rightarrow> int \<Rightarrow> int \<Rightarrow> utxodata list \<Rightarrow> int \<Rightarrow> utxodata list" where
  "collect_loop [] amnt amount_plus_change collected_utxos collected_amount = collected_utxos"
| "collect_loop (utxo # rest) amnt amount_plus_change collected_utxos collected_amount =
     (if collected_amount = amnt then collected_utxos
      else if collected_amount \<ge> amount_plus_change then collected_utxos
      else collect_loop rest amnt amount_plus_change
             (collected_utxos @ [utxo]) (collected_amount + utxodata.amount utxo))"

definition collect_utxos_amount :: "utxodata list \<Rightarrow> int \<Rightarrow> int \<Rightarrow> utxodata list" where
  "collect_utxos_amount utxos amnt min_change_value =
     (let amount_plus_change =
            (case utxos of
               [] \<Rightarrow> amnt
             | u # _ \<Rightarrow> if utxodata.coin u = DEFAULT_COIN then amnt + min_change_value else amnt)
      in collect_loop utxos amnt amount_plus_change [] 0)"

text \<open>
  The stop condition in the words of the specification: the running total \<open>t\<close> of a
  prefix is enough for \<open>amount\<close> of coin \<open>c\<close>.
\<close>
definition collection_reached :: "string \<Rightarrow> int \<Rightarrow> int \<Rightarrow> int \<Rightarrow> bool" where
  "collection_reached c amnt min_change_value t \<longleftrightarrow>
     (if c = DEFAULT_COIN then t = amnt \<or> amnt + min_change_value \<le> t else amnt \<le> t)"

section \<open>Coverage selector\<close>

text \<open>
  Both the selector and the balancer iterate over
  \<^verbatim>\<open>set(txins_db).union(txouts_passed_db).union(txouts_mint_db)\<close>. The elements are
  \<open>coin_keys\<close>; the order in which Python enumerates a set of strings is left open by
  the language, so it is a parameter \<open>set_order\<close> of the model, about which the theorems
  assume only that it enumerates the keys without repetition.
\<close>
type_synonym set_order = "string list \<Rightarrow> string list"

definition coin_keys ::
  "(string \<times> utxodata list) list \<Rightarrow> (string \<times> txout list) list \<Rightarrow> (string \<times> txout list) list
   \<Rightarrow> string list" where
  "coin_keys txins_db txouts_passed_db txouts_mint_db =
     remdups (map fst txins_db @ map fst txouts_passed_db @ map fst txouts_mint_db)"

definition enumerates :: "set_order \<Rightarrow> bool" where
  "enumerates set_order \<longleftrightarrow>
     (\<forall>keys. distinct keys \<longrightarrow> set (set_order keys) = set keys \<and> distinct (set_order keys))"

text \<open>\<^verbatim>\<open>[idx for idx, val in enumerate(coin_txouts) if val.amount == -1]\<close>\<close>
definition max_indexes :: "txout list \<Rightarrow> nat list" where
  "max_indexes coin_txouts =
     [idx \<leftarrow> [0..<length coin_txouts]. txout.amount (coin_txouts ! idx) = - 1]"

text \<open>Lines 110--124 of the selector: the amount handed to the collector for one coin.\<close>
definition input_funds_needed ::
  "string \<Rightarrow> txout list \<Rightarrow> (string \<times> txout list) list \<Rightarrow> int \<Rightarrow> txout list \<Rightarrow> int \<Rightarrow> int" where
  "input_funds_needed cn coin_txouts txouts_mint_db fee withdrawals deposit =
     (let total_output_amount = reduce_amount txout.amount coin_txouts
      in if cn = DEFAULT_COIN then
           (let tx_fee = (if fee > 1 then fee else 1);
                funds_needed = total_output_amount + tx_fee + deposit;
                total_withdrawals_amount = reduce_amount txout.amount withdrawals
            in max (funds_needed - total_withdrawals_amount) tx_fee)
         else
           (let coin_txouts_minted = get_or_empty txouts_mint_db cn;
                total_minted_amount = reduce_amount txout.amount coin_txouts_minted
            in total_output_amount - total_minted_amount))"

text \<open>One iteration of the selector's loop over the coins.\<close>
definition select_coin ::
  "(string \<times> utxodata list) list \<Rightarrow> (string \<times> txout list) list \<Rightarrow> (string \<times> txout list) list
   \<Rightarrow> int \<Rightarrow> txout list \<Rightarrow> int \<Rightarrow> int \<Rightarrow> string set \<Rightarrow> string \<Rightarrow> string set" where
  "select_coin txins_db txouts_passed_db txouts_mint_db fee withdrawals min_change_value deposit
       utxo_ids cn =
     (let coin_txins = get_or_empty txins_db cn;
          coin_txouts = get_or_empty txouts_passed_db cn;
          max_index = max_indexes coin_txouts
      in if max_index \<noteq> [] then utxo_ids \<union> set (map utxo_id coin_txins)
         else
           (let filtered_coin_utxos =
                  collect_utxos_amount coin_txins
                    (input_funds_needed cn coin_txouts txouts_mint_db fee withdrawals deposit)
                    min_change_value
            in utxo_ids \<union> set (map utxo_id filtered_coin_utxos)))"

definition select_utxos ::
  "set_order \<Rightarrow> (string \<times> utxodata list) list \<Rightarrow> (string \<times> txout list) list
   \<Rightarrow> (string \<times> txout list) list \<Rightarrow> int \<Rightarrow> txout list \<Rightarrow> int \<Rightarrow> int \<Rightarrow> string set" where
  "select_utxos set_order txins_db txouts_passed_db txouts_mint_db fee withdrawals
       min_change_value deposit =
     foldl (select_coin txins_db txouts_passed_db txouts_mint_db fee withdrawals
              min_change_value deposit)
       {} (set_order (coin_keys txins_db txouts_passed_db txouts_mint_db))"

text \<open>
  The selector's step in the words of the specification: the collector is invoked
  with the funds needed "clamped non-negative".
\<close>
definition select_coin_clamped ::
  "(string \<times> utxodata list) list \<Rightarrow> (string \<times> txout list) list \<Rightarrow> (string \<times> txout list) list
   \<Rightarrow> int \<Rightarrow> txout list \<Rightarrow> int \<Rightarrow> int \<Rightarrow> string set \<Rightarrow> string \<Rightarrow> string set" where
  "select_coin_clamped txins_db txouts_passed_db txouts_mint_db fee withdrawals min_change_value
       deposit utxo_ids cn =
     (let coin_txins = get_or_empty txins_db cn;
          coin_txouts = get_or_empty txouts_passed_db cn
      in if max_indexes coin_txouts \<noteq> [] then utxo_ids \<union> set (map utxo_id coin_txins)
         else utxo_ids \<union> set (map utxo_id
                (collect_utxos_amount coin_txins
                   (max 0 (input_funds_needed cn coin_txouts txouts_mint_db fee withdrawals deposit))
                   min_change_value)))"

section \<open>Balancer\<close>

text \<open>The calls of \<^verbatim>\<open>LOGGER.error\<close>, one constructor per message.\<close>
datatype log_entry =
    Not_enough_funds int int
  | Coin_not_sufficient string int int
  | No_input_utxo
  | Not_all_output_coins
  | Empty_txins

text \<open>
  The balancer appends to its local list \<^verbatim>\<open>txouts_result\<close>, pops from the lists held
  by the dictionary \<^verbatim>\<open>txouts_passed_db\<close> it was given (\<^verbatim>\<open>coin_txouts\<close> is the very list
  stored in the dictionary whenever that list is non-empty), and logs. These are the
  components of the state threaded through its loop. The lists of different keys are
  taken to be different objects, as \<^verbatim>\<open>_organize_tx_ins_outs_by_coin\<close> builds them.
\<close>
record balancer_state =
  txouts_result :: "txout list"
  passed_db :: "(string \<times> txout list) list"
  logged :: "log_entry list"

text \<open>Lines 162--188: the change of one coin and what is logged about it.\<close>
definition coin_change ::
  "string \<Rightarrow> utxodata list \<Rightarrow> txout list \<Rightarrow> (string \<times> txout list) list \<Rightarrow> int \<Rightarrow> txout list
   \<Rightarrow> int \<Rightarrow> bool \<Rightarrow> int \<times> log_entry list" where
  "coin_change cn coin_txins coin_txouts txouts_mint_db fee withdrawals deposit lovelace_balanced =
     (let total_input_amount = reduce_amount utxodata.amount coin_txins;
          total_output_amount = reduce_amount txout.amount coin_txouts
      in if cn = DEFAULT_COIN \<and> lovelace_balanced then (0, [])
         else if cn = DEFAULT_COIN then
           (let tx_fee = (if fee > 0 then fee else 0);
                total_withdrawals_amount = reduce_amount txout.amount withdrawals;
                funds_available = total_input_amount + total_withdrawals_amount;
                funds_needed = total_output_amount + tx_fee + deposit;
                change = funds_available - funds_needed
            in (change, if change < 0 then [Not_enough_funds funds_available funds_needed] else []))
         else
           (let coin_txouts_minted = get_or_empty txouts_mint_db cn;
                total_minted_amount = reduce_amount txout.amount coin_txouts_minted;
                funds_available = total_input_amount + total_minted_amount;
                change = funds_available - total_output_amount
            in (change,
                if change < 0 then [Coin_not_sufficient cn funds_available total_output_amount]
                else [])))"

text \<open>\<^verbatim>\<open>max_address or src_address\<close>: \<^verbatim>\<open>None\<close> and the empty string are both falsy.\<close>
definition address_or :: "string option \<Rightarrow> string \<Rightarrow> string" where
  "address_or max_address src_address =
     (case max_address of None \<Rightarrow> src_address
      | Some a \<Rightarrow> if a = [] then src_address else a)"

text \<open>One iteration of the balancer's loop; \<open>Inl\<close> is the \<^verbatim>\<open>raise\<close> of line 158.\<close>
definition balance_coin ::
  "string \<Rightarrow> (string \<times> utxodata list) list \<Rightarrow> (string \<times> txout list) list \<Rightarrow> int \<Rightarrow> txout list
   \<Rightarrow> int \<Rightarrow> bool \<Rightarrow> balancer_state \<Rightarrow> string \<Rightarrow> error + balancer_state" where
  "balance_coin src_address txins_db txouts_mint_db fee withdrawals deposit lovelace_balanced st cn =
     (let coin_txins = get_or_empty txins_db cn;
          coin_txouts = get_or_empty (passed_db st) cn;
          max_index = max_indexes coin_txouts
      in if length max_index > 1 then Inl CLIError
         else
           (let max_address =
                  (if max_index \<noteq> [] then Some (txout.address (coin_txouts ! hd max_index))
                   else None);
                coin_txouts_left =
                  (if max_index \<noteq> [] then pop_rest (hd max_index) coin_txouts else coin_txouts);
                db =
                  (if max_index \<noteq> [] then AList.update cn coin_txouts_left (passed_db st)
                   else passed_db st);
                (change, logs) =
                  coin_change cn coin_txins coin_txouts_left txouts_mint_db fee withdrawals deposit
                    lovelace_balanced
            in Inr \<lparr>txouts_result =
                      txouts_result st @
                      (if change > 0
                       then [\<lparr>txout.address = address_or max_address src_address,
                              txout.amount = change, txout.coin = cn\<rparr>]
                       else []),
                    passed_db = db,
                    logged = logged st @ logs\<rparr>))"

fun balance_loop ::
  "string \<Rightarrow> (string \<times> utxodata list) list \<Rightarrow> (string \<times> txout list) list \<Rightarrow> int \<Rightarrow> txout list
   \<Rightarrow> int \<Rightarrow> bool \<Rightarrow> string list \<Rightarrow> balancer_state \<Rightarrow> error option \<times> balancer_state" where
  "balance_loop src_address txins_db txouts_mint_db fee withdrawals deposit lovelace_balanced
       [] st = (None, st)"
| "balance_loop src_address txins_db txouts_mint_db fee withdrawals deposit lovelace_balanced
       (cn # coins) st =
     (case balance_coin src_address txins_db txouts_mint_db fee withdrawals deposit
             lovelace_balanced st cn of
        Inl e \<Rightarrow> (Some e, st)
      | Inr st' \<Rightarrow>
          balance_loop src_address txins_db txouts_mint_db fee withdrawals deposit
            lovelace_balanced coins st')"

text \<open>
  The result is what is returned or raised, together with the dictionary
  \<^verbatim>\<open>txouts_passed_db\<close> as the call leaves it and the errors it logged.
\<close>
definition balance_txouts ::
  "set_order \<Rightarrow> string \<Rightarrow> txout list \<Rightarrow> (string \<times> utxodata list) list
   \<Rightarrow> (string \<times> txout list) list \<Rightarrow> (string \<times> txout list) list \<Rightarrow> int \<Rightarrow> txout list \<Rightarrow> int
   \<Rightarrow> bool \<Rightarrow> (error + txout list) \<times> (string \<times> txout list) list \<times> log_entry list" where
  "balance_txouts set_order src_address txouts txins_db txouts_passed_db txouts_mint_db fee
       withdrawals deposit lovelace_balanced =
     (case balance_loop src_address txins_db txouts_mint_db fee withdrawals deposit
             lovelace_balanced
             (set_order (coin_keys txins_db txouts_passed_db txouts_mint_db))
             \<lparr>txouts_result = txouts, passed_db = txouts_passed_db, logged = []\<rparr> of
        (Some e, st) \<Rightarrow> (Inl e, passed_db st, logged st)
      | (None, st) \<Rightarrow>
          (Inr [r \<leftarrow> txouts_result st. txout.amount r > 0], passed_db st, logged st))"

text \<open>
  The balancer's result in the words of the specification. \<open>requested_left\<close> is the
  requested set of a coin once the output of amount \<open>-1\<close> is removed from it,
  \<open>change_destination\<close> the address recorded from that output, \<open>change_of\<close> the change
  of a coin, and \<open>change_txouts\<close> the change output appended for it, if any.
\<close>
definition requested_left :: "txout list \<Rightarrow> txout list" where
  "requested_left coin_txouts = [r \<leftarrow> coin_txouts. txout.amount r \<noteq> - 1]"

definition change_destination :: "txout list \<Rightarrow> string option" where
  "change_destination coin_txouts =
     (case [r \<leftarrow> coin_txouts. txout.amount r = - 1] of
        [] \<Rightarrow> None
      | r # _ \<Rightarrow> Some (txout.address r))"

definition change_of ::
  "(string \<times> utxodata list) list \<Rightarrow> (string \<times> txout list) list \<Rightarrow> (string \<times> txout list) list
   \<Rightarrow> int \<Rightarrow> txout list \<Rightarrow> int \<Rightarrow> bool \<Rightarrow> string \<Rightarrow> int" where
  "change_of txins_db txouts_passed_db txouts_mint_db fee withdrawals deposit lovelace_balanced cn =
     fst (coin_change cn (get_or_empty txins_db cn)
            (requested_left (get_or_empty txouts_passed_db cn))
            txouts_mint_db fee withdrawals deposit lovelace_balanced)"

definition change_txouts ::
  "string \<Rightarrow> (string \<times> utxodata list) list \<Rightarrow> (string \<times> txout list) list
   \<Rightarrow> (string \<times> txout list) list \<Rightarrow> int \<Rightarrow> txout list \<Rightarrow> int \<Rightarrow> bool \<Rightarrow> string \<Rightarrow> txout list" where
  "change_txouts src_address txins_db txouts_passed_db txouts_mint_db fee withdrawals deposit
       lovelace_balanced cn =
     (let change = change_of txins_db txouts_passed_db txouts_mint_db fee withdrawals deposit
                     lovelace_balanced cn
      in if change > 0
         then [\<lparr>txout.address =
                   address_or (change_destination (get_or_empty txouts_passed_db cn)) src_address,
                 txout.amount = change, txout.coin = cn\<rparr>]
         else [])"

section \<open>Orchestrator\<close>

text \<open>
  The object \<^verbatim>\<open>clusterlib_obj\<close> as the orchestrator uses it: the two external lookups,
  which may raise, and the configured minimum change value. The files \<^verbatim>\<open>tx_files\<close>
  are opaque (type \<open>'f\<close>).
\<close>
record 'f clusterlib =
  cl_get_utxo :: "string \<Rightarrow> error + utxodata list"
  cl_get_tx_deposit :: "'f \<Rightarrow> error + int"
  cl_min_change_value :: int

text \<open>What the orchestrator does besides returning: the external calls and the logged errors, in order.\<close>
datatype event = Call_get_utxo string | Call_get_tx_deposit | Logged log_entry

text \<open>
  Lines 389--391: \<^verbatim>\<open>list(txins) or _get_utxos_with_coins(get_utxo(src_address), ...)\<close>.
  The external lookup happens only when no input was passed, and may raise.
\<close>
definition fetch_txins ::
  "'f clusterlib \<Rightarrow> string \<Rightarrow> utxodata list \<Rightarrow> string set
   \<Rightarrow> event list \<times> (error + utxodata list)" where
  "fetch_txins clusterlib_obj src_address txins outcoins_all =
     (if txins \<noteq> [] then ([], Inr txins)
      else ([Call_get_utxo src_address],
            case cl_get_utxo clusterlib_obj src_address of
              Inl e \<Rightarrow> Inl e
            | Inr address_utxos \<Rightarrow> Inr (get_utxos_with_coins address_utxos outcoins_all)))"

text \<open>Line 394: the deposit is looked up only when none was passed.\<close>
definition fetch_deposit :: "'f clusterlib \<Rightarrow> 'f \<Rightarrow> int option \<Rightarrow> event list \<times> (error + int)" where
  "fetch_deposit clusterlib_obj tx_files deposit =
     (case deposit of
        None \<Rightarrow> ([Call_get_tx_deposit], cl_get_tx_deposit clusterlib_obj tx_files)
      | Some d \<Rightarrow> ([], Inr d))"

text \<open>Lines 396--401: the two logged checks of the candidate inputs.\<close>
definition check_txins ::
  "utxodata list \<Rightarrow> (string \<times> utxodata list) list \<Rightarrow> string list
   \<Rightarrow> (string \<times> txout list) list \<Rightarrow> event list" where
  "check_txins txins_all txins_db_all outcoins_passed txouts_mint_db =
     (if txins_all = [] then [Logged No_input_utxo]
      else if \<not> (set outcoins_passed - set (map fst txouts_mint_db)
                  \<subseteq> set (map fst txins_db_all))
      then [Logged Not_all_output_coins]
      else [])"

text \<open>
  Lines 403--422: inputs that were passed are kept as they are; otherwise the selector
  runs and the selected identifiers are expanded to all their records.
\<close>
definition filter_txins ::
  "set_order \<Rightarrow> int \<Rightarrow> utxodata list \<Rightarrow> utxodata list \<Rightarrow> (string \<times> utxodata list) list
   \<Rightarrow> (string \<times> txout list) list \<Rightarrow> (string \<times> txout list) list \<Rightarrow> int \<Rightarrow> txout list \<Rightarrow> int
   \<Rightarrow> utxodata list \<times> (string \<times> utxodata list) list" where
  "filter_txins set_order min_change_value txins txins_all txins_db_all txouts_passed_db
       txouts_mint_db fee withdrawals tx_deposit =
     (if txins \<noteq> [] then (txins_all, txins_db_all)
      else
        (let selected_utxo_ids =
               select_utxos set_order txins_db_all txouts_passed_db txouts_mint_db fee
                 withdrawals min_change_value tx_deposit;
             txins_by_id = organize_utxos_by_id txins_all;
             txins_filtered_groups =
               map snd (filter (\<lambda>(uid, utxo). uid \<in> selected_utxo_ids) txins_by_id);
             txins_filtered = concat txins_filtered_groups
         in (txins_filtered, organize_utxos_by_coin txins_filtered)))"

text \<open>
  The orchestrator. Its optional parameters \<^verbatim>\<open>txins\<close> (default \<^verbatim>\<open>()\<close>) and
  \<^verbatim>\<open>deposit\<close> (default \<^verbatim>\<open>None\<close>) are options: \<open>None\<close> is the argument left out.
  The result is the events in order and what is returned or raised.
\<close>
definition get_tx_ins_outs ::
  "set_order \<Rightarrow> 'f clusterlib \<Rightarrow> string \<Rightarrow> 'f \<Rightarrow> utxodata list option \<Rightarrow> txout list \<Rightarrow> int
   \<Rightarrow> int option \<Rightarrow> txout list \<Rightarrow> txout list \<Rightarrow> bool
   \<Rightarrow> event list \<times> (error + utxodata list \<times> txout list)" where
  "get_tx_ins_outs set_order clusterlib_obj src_address tx_files txins_arg txouts fee deposit
       withdrawals mint_txouts lovelace_balanced =
     (let txins = (case txins_arg of None \<Rightarrow> [] | Some given \<Rightarrow> given);
          txouts_passed_db = organize_txouts_by_coin txouts;
          txouts_mint_db = organize_txouts_by_coin mint_txouts;
          outcoins_all =
            {DEFAULT_COIN} \<union> set (map fst txouts_mint_db) \<union> set (map fst txouts_passed_db);
          outcoins_passed = DEFAULT_COIN # map fst txouts_passed_db
      in case fetch_txins clusterlib_obj src_address txins outcoins_all of
          (ev_utxo, Inl e) \<Rightarrow> (ev_utxo, Inl e)
        | (ev_utxo, Inr txins_all) \<Rightarrow>
      (let txins_db_all = organize_utxos_by_coin txins_all
       in case fetch_deposit clusterlib_obj tx_files deposit of
           (ev_deposit, Inl e) \<Rightarrow> (ev_utxo @ ev_deposit, Inl e)
         | (ev_deposit, Inr tx_deposit) \<Rightarrow>
      (let ev_inputs = check_txins txins_all txins_db_all outcoins_passed txouts_mint_db;
           (txins_filtered, txins_db_filtered) =
             filter_txins set_order (cl_min_change_value clusterlib_obj) txins txins_all
               txins_db_all txouts_passed_db txouts_mint_db fee withdrawals tx_deposit;
           ev_empty = (if txins_filtered = [] then [Logged Empty_txins] else [])
       in case balance_txouts set_order src_address txouts txins_db_filtered txouts_passed_db
                 txouts_mint_db fee withdrawals tx_deposit lovelace_balanced of
            (Inl e, db, logs) \<Rightarrow>
              (ev_utxo @ ev_deposit @ ev_inputs @ ev_empty @ map Logged logs, Inl e)
          | (Inr txouts_balanced, db, logs) \<Rightarrow>
              (ev_utxo @ ev_deposit @ ev_inputs @ ev_empty @ map Logged logs,
               Inr (txins_filtered, txouts_balanced)))))"

section \<open>UTXO decoder\<close>

text \<open>
  The JSON output of \<^verbatim>\<open>query utxo\<close>: a dictionary from \<^verbatim>\<open>"hash#ix"\<close> to an entry.
  An entry's \<^verbatim>\<open>"value"\<close> maps \<^verbatim>\<open>"lovelace"\<close> to an integer and a policy id to the
  amounts of its assets, which are a dictionary or a list of pairs. Keys that
  \<^verbatim>\<open>.get\<close> does not find are \<open>None\<close>.
\<close>
datatype coin_data =
    Coin_amount int
  | Coin_dict "(string \<times> int) list"
  | Coin_list "(string \<times> int) list"

record utxo_entry =
  entry_address :: "string option"
  entry_value :: "(string \<times> coin_data) list option"
  entry_data :: "string option"
  entry_datumhash :: "string option"

text \<open>\<^verbatim>\<open>utxo_hash, utxo_ix = utxo_rec.split("#")\<close> succeeds on exactly one separator.\<close>
definition split_hash_ix :: "string \<Rightarrow> (string \<times> string) option" where
  "split_hash_ix utxo_rec =
     (if length (filter (\<lambda>ch. ch = CHR ''#'') utxo_rec) = 1
      then Some (takeWhile (\<lambda>ch. ch \<noteq> CHR ''#'') utxo_rec,
                 tl (dropWhile (\<lambda>ch. ch \<noteq> CHR ''#'') utxo_rec))
      else None)"

text \<open>
  \<^verbatim>\<open>int(s)\<close> on ASCII text: surrounding whitespace, an optional sign, decimal digits
  with single underscores between them. (Python accepts non-ASCII digits and spaces as
  well, and newer versions refuse texts of several thousand digits; neither is
  modelled.)
\<close>
definition is_space :: "char \<Rightarrow> bool" where
  "is_space ch \<longleftrightarrow> of_char ch \<in> {9, 10, 11, 12, 13, 28, 29, 30, 31, 32 :: nat}"

definition is_digit :: "char \<Rightarrow> bool" where
  "is_digit ch \<longleftrightarrow> (48 :: nat) \<le> of_char ch \<and> of_char ch \<le> (57 :: nat)"

fun digits_ok :: "string \<Rightarrow> bool" where
  "digits_ok [] = False"
| "digits_ok [d] = is_digit d"
| "digits_ok (d # u # rest) =
     (is_digit d \<and> (if u = CHR ''_'' then digits_ok rest else digits_ok (u # rest)))"

definition digits_value :: "string \<Rightarrow> int" where
  "digits_value ds =
     foldl (\<lambda>acc ch. 10 * acc + (int (of_char ch) - 48)) 0 (filter is_digit ds)"

definition py_int :: "string \<Rightarrow> int option" where
  "py_int s =
     (let stripped = rev (dropWhile is_space (rev (dropWhile is_space s)));
          (sign, ds) = (case stripped of
                          ch # rest \<Rightarrow> if ch = CHR ''-'' then (- 1, rest)
                                       else if ch = CHR ''+'' then (1, rest)
                                       else (1, stripped)
                        | [] \<Rightarrow> (1 :: int, stripped))
      in if digits_ok ds then Some (sign * digits_value ds) else None)"

text \<open>
  \<^verbatim>\<open>base64.b16decode(asset_name.encode(), casefold=True).decode("utf-8")\<close>: pairs of
  hexadecimal digits of either case give the bytes; the bytes must be well-formed
  UTF-8 (no overlong forms, no surrogates, nothing above U+10FFFF). \<open>None\<close> is an
  exception of either step.
\<close>
definition hex_value :: "char \<Rightarrow> nat option" where
  "hex_value ch =
     (let n = (of_char ch :: nat)
      in if 48 \<le> n \<and> n \<le> 57 then Some (n - 48)
         else if 65 \<le> n \<and> n \<le> 70 then Some (n - 55)
         else if 97 \<le> n \<and> n \<le> 102 then Some (n - 87)
         else None)"

fun b16decode :: "string \<Rightarrow> nat list option" where
  "b16decode [] = Some []"
| "b16decode [h] = None"
| "b16decode (h # l # rest) =
     (case (hex_value h, hex_value l, b16decode rest) of
        (Some a, Some b, Some bytes) \<Rightarrow> Some ((16 * a + b) # bytes)
      | _ \<Rightarrow> None)"

definition continuation :: "nat \<Rightarrow> bool" where
  "continuation b \<longleftrightarrow> 128 \<le> b \<and> b \<le> 191"

fun utf8_valid :: "nat list \<Rightarrow> bool" where
  "utf8_valid [] = True"
| "utf8_valid (b0 # rest) =
     (if b0 < 128 then utf8_valid rest
      else if 194 \<le> b0 \<and> b0 \<le> 223 then
        (case rest of b1 # r \<Rightarrow> continuation b1 \<and> utf8_valid r | _ \<Rightarrow> False)
      else if 224 \<le> b0 \<and> b0 \<le> 239 then
        (case rest of
           b1 # b2 # r \<Rightarrow>
             (if b0 = 224 then 160 \<le> b1 \<and> b1 \<le> 191
              else if b0 = 237 then 128 \<le> b1 \<and> b1 \<le> 159
              else continuation b1)
             \<and> continuation b2 \<and> utf8_valid r
         | _ \<Rightarrow> False)
      else if 240 \<le> b0 \<and> b0 \<le> 244 then
        (case rest of
           b1 # b2 # b3 # r \<Rightarrow>
             (if b0 = 240 then 144 \<le> b1 \<and> b1 \<le> 191
              else if b0 = 244 then 128 \<le> b1 \<and> b1 \<le> 143
              else continuation b1)
             \<and> continuation b2 \<and> continuation b3 \<and> utf8_valid r
         | _ \<Rightarrow> False)
      else False)"

definition decode_asset_name :: "string \<Rightarrow> string option" where
  "decode_asset_name asset_name =
     (case b16decode asset_name of
        None \<Rightarrow> None
      | Some bytes \<Rightarrow> if utf8_valid bytes then Some (map char_of bytes) else None)"

text \<open>Lines 485--507: the record of one asset; a failed decoding is passed over.\<close>
definition asset_utxo ::
  "string \<Rightarrow> int \<Rightarrow> string \<Rightarrow> string \<Rightarrow> string \<Rightarrow> string \<Rightarrow> string \<times> int \<Rightarrow> utxodata" where
  "asset_utxo hash ix addr utxo_address dhash policyid asset =
     (case asset of (asset_name, amnt) \<Rightarrow>
        (let decoded_coin =
               (if asset_name \<noteq> [] then
                  (case decode_asset_name asset_name of
                     Some decoded_name \<Rightarrow> policyid @ ''.'' @ decoded_name
                   | None \<Rightarrow> [])
                else policyid)
         in \<lparr>utxo_hash = hash, utxo_ix = ix, utxodata.amount = amnt,
             utxodata.address = (if addr \<noteq> [] then addr else utxo_address),
             utxodata.coin = (if asset_name \<noteq> [] then policyid @ ''.'' @ asset_name else policyid),
             decoded_coin = decoded_coin, datum_hash = dhash\<rparr>))"

text \<open>The loop over the assets of one policy; \<^verbatim>\<open>int(utxo_ix)\<close> runs for every record.\<close>
fun asset_loop ::
  "string \<Rightarrow> string \<Rightarrow> string \<Rightarrow> string \<Rightarrow> string \<Rightarrow> string \<Rightarrow> (string \<times> int) list
   \<Rightarrow> utxodata list \<Rightarrow> error + utxodata list" where
  "asset_loop hash ix_text addr utxo_address dhash policyid [] utxo = Inr utxo"
| "asset_loop hash ix_text addr utxo_address dhash policyid (asset # rest) utxo =
     (case py_int ix_text of
        None \<Rightarrow> Inl ValueError
      | Some ix \<Rightarrow>
          asset_loop hash ix_text addr utxo_address dhash policyid rest
            (utxo @ [asset_utxo hash ix addr utxo_address dhash policyid asset]))"

text \<open>
  The loop over the policies of one entry. Under the key \<^verbatim>\<open>"lovelace"\<close> the value is
  the amount (a value that is no integer would be stored as it is, which the typed
  record cannot hold: \<open>TypeError\<close> stands for it); under another key an integer has
  no \<^verbatim>\<open>.items()\<close> and cannot be iterated.
\<close>
fun policy_loop ::
  "string \<Rightarrow> string \<Rightarrow> string \<Rightarrow> string \<Rightarrow> string \<Rightarrow> (string \<times> coin_data) list
   \<Rightarrow> utxodata list \<Rightarrow> error + utxodata list" where
  "policy_loop hash ix_text addr utxo_address dhash [] utxo = Inr utxo"
| "policy_loop hash ix_text addr utxo_address dhash ((policyid, cdata) # rest) utxo =
     (if policyid = DEFAULT_COIN then
        (case py_int ix_text of
           None \<Rightarrow> Inl ValueError
         | Some ix \<Rightarrow>
             (case cdata of
                Coin_amount amnt \<Rightarrow>
                  policy_loop hash ix_text addr utxo_address dhash rest
                    (utxo @ [\<lparr>utxo_hash = hash, utxo_ix = ix, utxodata.amount = amnt,
                              utxodata.address = (if addr \<noteq> [] then addr else utxo_address),
                              utxodata.coin = DEFAULT_COIN, decoded_coin = [],
                              datum_hash = dhash\<rparr>])
              | _ \<Rightarrow> Inl TypeError))
      else
        (case cdata of
           Coin_amount n \<Rightarrow> Inl TypeError
         | Coin_dict assets \<Rightarrow>
             (case asset_loop hash ix_text addr utxo_address dhash policyid assets utxo of
                Inl e \<Rightarrow> Inl e
              | Inr utxo' \<Rightarrow> policy_loop hash ix_text addr utxo_address dhash rest utxo')
         | Coin_list assets \<Rightarrow>
             (case asset_loop hash ix_text addr utxo_address dhash policyid assets utxo of
                Inl e \<Rightarrow> Inl e
              | Inr utxo' \<Rightarrow> policy_loop hash ix_text addr utxo_address dhash rest utxo')))"

text \<open>\<^verbatim>\<open>a or b\<close> on optional strings, with \<^verbatim>\<open>None\<close> and \<^verbatim>\<open>""\<close> falsy.\<close>
definition str_or :: "string option \<Rightarrow> string \<Rightarrow> string" where
  "str_or a b = (case a of None \<Rightarrow> b | Some x \<Rightarrow> if x = [] then b else x)"

fun entry_loop ::
  "string \<Rightarrow> (string \<times> utxo_entry) list \<Rightarrow> utxodata list \<Rightarrow> error + utxodata list" where
  "entry_loop addr [] utxo = Inr utxo"
| "entry_loop addr ((utxo_rec, utxo_data) # rest) utxo =
     (case split_hash_ix utxo_rec of
        None \<Rightarrow> Inl ValueError
      | Some (hash, ix_text) \<Rightarrow>
          (let utxo_address = str_or (entry_address utxo_data) []
           in case entry_value utxo_data of
                None \<Rightarrow> Inl KeyError
              | Some addr_data \<Rightarrow>
                  (let dhash = str_or (entry_data utxo_data) (str_or (entry_datumhash utxo_data) [])
                   in case policy_loop hash ix_text addr utxo_address dhash addr_data utxo of
                        Inl e \<Rightarrow> Inl e
                      | Inr utxo' \<Rightarrow> entry_loop addr rest utxo')))"

definition get_utxo ::
  "(string \<times> utxo_entry) list \<Rightarrow> string \<Rightarrow> string list \<Rightarrow> error + utxodata list" where
  "get_utxo utxo_dict addr coins =
     (case entry_loop addr utxo_dict [] of
        Inl e \<Rightarrow> Inl e
      | Inr utxo \<Rightarrow>
          if coins \<noteq> [] then Inr [u \<leftarrow> utxo. utxodata.coin u \<in> set coins] else Inr utxo)"

section \<open>Basic facts\<close>

lemma foldl_add_amount: "foldl (\<lambda>x y. x + f y) a xs = a + sum_list (map f xs)"
  by (induction xs arbitrary: a) (simp_all add: add.assoc)

lemma reduce_amount_sum: "reduce_amount f xs = sum_list (map f xs)"
  by (simp add: reduce_amount_def foldl_add_amount)

lemma reduce_amount_Nil [simp]: "reduce_amount f [] = 0"
  by (simp add: reduce_amount_def)

lemma reduce_amount_Cons [simp]: "reduce_amount f (x # xs) = f x + reduce_amount f xs"
  by (simp add: reduce_amount_sum)

lemma reduce_amount_append: "reduce_amount f (xs @ ys) = reduce_amount f xs + reduce_amount f ys"
  by (simp add: reduce_amount_sum)

lemma collect_loop_prefix:
  "\<exists>k\<le>length us.
     collect_loop us a apc acc t = acc @ take k us
     \<and> (k < length us \<longrightarrow> (t + reduce_amount utxodata.amount (take k us) = a
                           \<or> apc \<le> t + reduce_amount utxodata.amount (take k us)))
     \<and> (\<forall>j<k. \<not> (t + reduce_amount utxodata.amount (take j us) = a
                  \<or> apc \<le> t + reduce_amount utxodata.amount (take j us)))"
proof (induction us arbitrary: acc t)
  case Nil
  show ?case by simp
next
  case (Cons u us)
  show ?case
  proof (cases "t = a \<or> apc \<le> t")
    case True
    then have "collect_loop (u # us) a apc acc t = acc @ take 0 (u # us)" by auto
    with True show ?thesis by (intro exI [of _ 0]) simp
  next
    case False
    from Cons.IH [of "acc @ [u]" "t + utxodata.amount u"]
    obtain k where k: "k \<le> length us"
      "collect_loop us a apc (acc @ [u]) (t + utxodata.amount u) = (acc @ [u]) @ take k us"
      "k < length us \<longrightarrow>
         (t + utxodata.amount u + reduce_amount utxodata.amount (take k us) = a
          \<or> apc \<le> t + utxodata.amount u + reduce_amount utxodata.amount (take k us))"
      "\<forall>j<k. \<not> (t + utxodata.amount u + reduce_amount utxodata.amount (take j us) = a
                \<or> apc \<le> t + utxodata.amount u + reduce_amount utxodata.amount (take j us))"
      by blast
    have tot: "\<And>j. reduce_amount utxodata.amount (take (Suc j) (u # us))
                 = utxodata.amount u + reduce_amount utxodata.amount (take j us)"
      by (simp add: reduce_amount_sum)
    have "collect_loop (u # us) a apc acc t = acc @ take (Suc k) (u # us)"
      using False k(2) by simp
    moreover have "Suc k < length (u # us) \<longrightarrow>
         (t + reduce_amount utxodata.amount (take (Suc k) (u # us)) = a
          \<or> apc \<le> t + reduce_amount utxodata.amount (take (Suc k) (u # us)))"
      using k(3) by (simp add: tot add.assoc)
    moreover have "\<forall>j<Suc k. \<not> (t + reduce_amount utxodata.amount (take j (u # us)) = a
                \<or> apc \<le> t + reduce_amount utxodata.amount (take j (u # us)))"
    proof (intro allI impI)
      fix j assume "j < Suc k"
      show "\<not> (t + reduce_amount utxodata.amount (take j (u # us)) = a
                \<or> apc \<le> t + reduce_amount utxodata.amount (take j (u # us)))"
      proof (cases j)
        case 0
        with False show ?thesis by simp
      next
        case (Suc j')
        with \<open>j < Suc k\<close> have "j' < k" by simp
        with k(4) show ?thesis unfolding Suc tot by (simp add: add.assoc)
      qed
    qed
    ultimately show ?thesis using k(1) by (intro exI [of _ "Suc k"]) simp
  qed
qed

lemma max_indexes_Nil_iff: "max_indexes xs = [] \<longleftrightarrow> (\<forall>r\<in>set xs. txout.amount r \<noteq> - 1)"
proof
  assume e: "max_indexes xs = []"
  show "\<forall>r\<in>set xs. txout.amount r \<noteq> - 1"
  proof
    fix r assume "r \<in> set xs"
    then obtain i where "i < length xs" "xs ! i = r" by (auto simp: in_set_conv_nth)
    with e show "txout.amount r \<noteq> - 1"
      by (auto simp: max_indexes_def filter_empty_conv)
  qed
next
  assume "\<forall>r\<in>set xs. txout.amount r \<noteq> - 1"
  then show "max_indexes xs = []"
    by (simp add: max_indexes_def filter_empty_conv)
qed

lemma update_new_key: "k \<notin> fst ` set al \<Longrightarrow> AList.update k v al = al @ [(k, v)]"
  by (induction al) auto

lemma map_of_organize_step:
  "map_of (organize_step f db x) k = (if k = f x then Some (get_or_empty db k @ [x]) else map_of db k)"
  by (auto simp: organize_step_def Let_def AList.update_conv' get_or_empty_def)

lemma get_or_empty_organize_step:
  "get_or_empty (organize_step f db x) k = get_or_empty db k @ (if f x = k then [x] else [])"
  by (auto simp: get_or_empty_def map_of_organize_step)

lemma get_or_empty_foldl_organize:
  "get_or_empty (foldl (organize_step f) db xs) k = get_or_empty db k @ filter (\<lambda>x. f x = k) xs"
  by (induction xs arbitrary: db) (simp_all add: get_or_empty_organize_step)

lemma get_or_empty_organize_by: "get_or_empty (organize_by f xs) k = filter (\<lambda>x. f x = k) xs"
proof -
  have "get_or_empty ([] :: ('b \<times> 'a list) list) k = []" by (simp add: get_or_empty_def)
  then show ?thesis by (simp add: organize_by_def get_or_empty_foldl_organize)
qed

lemma keys_organize_step: "fst ` set (organize_step f db x) = insert (f x) (fst ` set db)"
  by (auto simp: organize_step_def Let_def AList.dom_update)

lemma keys_foldl_organize: "fst ` set (foldl (organize_step f) db xs) = fst ` set db \<union> f ` set xs"
  by (induction xs arbitrary: db) (auto simp: keys_organize_step)

lemma keys_organize_by: "set (map fst (organize_by f xs)) = f ` set xs"
  by (simp add: organize_by_def keys_foldl_organize)

lemma distinct_organize_step: "distinct (map fst db) \<Longrightarrow> distinct (map fst (organize_step f db x))"
  by (simp add: organize_step_def Let_def AList.distinct_update)

lemma distinct_foldl_organize:
  "distinct (map fst db) \<Longrightarrow> distinct (map fst (foldl (organize_step f) db xs))"
  by (induction xs arbitrary: db) (simp_all add: distinct_organize_step)

lemma distinct_organize_by: "distinct (map fst (organize_by f xs))"
  by (simp add: organize_by_def distinct_foldl_organize)

lemma organize_step_new: "f x \<notin> fst ` set db \<Longrightarrow> organize_step f db x = db @ [(f x, [x])]"
proof -
  assume a: "f x \<notin> fst ` set db"
  then have n: "map_of db (f x) = None" by (simp add: map_of_eq_None_iff)
  have u1: "AList.update (f x) [] db = db @ [(f x, [])]" using a by (rule update_new_key)
  have "AList.update (f x) [x] (db @ [(f x, [])]) = db @ [(f x, [x])]"
    using a by (induction db) auto
  moreover have "get_or_empty (db @ [(f x, [])]) (f x) = []"
    by (simp add: get_or_empty_def map_add_def n)
  ultimately show ?thesis
    by (simp add: organize_step_def Let_def u1 n)
qed

lemma foldl_organize_distinct:
  "distinct (map f xs) \<Longrightarrow> f ` set xs \<inter> fst ` set db = {} \<Longrightarrow>
   foldl (organize_step f) db xs = db @ map (\<lambda>x. (f x, [x])) xs"
proof (induction xs arbitrary: db)
  case Nil
  show ?case by simp
next
  case (Cons x xs)
  have new: "f x \<notin> fst ` set db" using Cons.prems(2) by auto
  have "foldl (organize_step f) (db @ [(f x, [x])]) xs = (db @ [(f x, [x])]) @ map (\<lambda>x. (f x, [x])) xs"
    using Cons.prems by (intro Cons.IH) auto
  then show ?case using organize_step_new [of f x db, OF new] by simp
qed

lemma organize_by_distinct:
  "distinct (map f xs) \<Longrightarrow> organize_by f xs = map (\<lambda>x. (f x, [x])) xs"
  using foldl_organize_distinct [of f xs "[]"] by (simp add: organize_by_def)

lemma collect_nonpositive:
  assumes "amnt \<le> 0" "\<forall>u\<in>set utxos. utxodata.coin u \<noteq> DEFAULT_COIN"
  shows "collect_utxos_amount utxos amnt mcv = []"
  using assms by (cases utxos) (auto simp: collect_utxos_amount_def)

section \<open>Facts about the balancer\<close>

lemma max_indexes_Cons:
  "max_indexes (x # xs) = (if txout.amount x = - 1 then [0] else []) @ map Suc (max_indexes xs)"
proof -
  have "[0..<length (x # xs)] = 0 # map Suc [0..<length xs]"
    by (simp add: upt_conv_Cons map_Suc_upt del: upt_Suc)
  then show ?thesis
    by (simp add: max_indexes_def filter_map o_def del: upt_Suc)
qed

lemma max_indexes_Nil [simp]: "max_indexes [] = []"
  by (simp add: max_indexes_def)

lemma length_max_indexes:
  "length (max_indexes xs) = length [r \<leftarrow> xs. txout.amount r = - 1]"
  by (induction xs) (simp_all add: max_indexes_Cons)

lemma pop_single:
  "length (max_indexes xs) \<le> 1 \<Longrightarrow> max_indexes xs \<noteq> [] \<Longrightarrow>
   pop_rest (hd (max_indexes xs)) xs = requested_left xs"
proof (induction xs)
  case Nil
  then show ?case by simp
next
  case (Cons x xs)
  show ?case
  proof (cases "txout.amount x = - 1")
    case True
    with Cons.prems(1) have "max_indexes xs = []" by (simp add: max_indexes_Cons)
    then have "requested_left xs = xs"
      by (simp add: requested_left_def max_indexes_Nil_iff)
    with True show ?thesis by (simp add: max_indexes_Cons pop_rest_def requested_left_def)
  next
    case False
    with Cons.prems have p: "length (max_indexes xs) \<le> 1" "max_indexes xs \<noteq> []"
      by (simp_all add: max_indexes_Cons)
    from Cons.IH [OF p] False p(2) show ?thesis
      by (simp add: max_indexes_Cons pop_rest_def requested_left_def hd_map)
  qed
qed

lemma requested_left_id: "max_indexes xs = [] \<Longrightarrow> requested_left xs = xs"
  by (simp add: requested_left_def max_indexes_Nil_iff)

lemma max_address_destination:
  "max_indexes xs \<noteq> [] \<Longrightarrow>
   Some (txout.address (xs ! hd (max_indexes xs))) = change_destination xs"
proof (induction xs)
  case Nil
  then show ?case by simp
next
  case (Cons x xs)
  show ?case
  proof (cases "txout.amount x = - 1")
    case True
    then show ?thesis by (simp add: max_indexes_Cons change_destination_def)
  next
    case False
    with Cons.prems have p: "max_indexes xs \<noteq> []" by (simp add: max_indexes_Cons)
    from Cons.IH [OF p] False p show ?thesis
      by (simp add: max_indexes_Cons change_destination_def hd_map)
  qed
qed

lemma change_destination_None: "max_indexes xs = [] \<Longrightarrow> change_destination xs = None"
  by (simp add: change_destination_def max_indexes_Nil_iff filter_empty_conv)

text \<open>One iteration of the balancer, in the terms of the specification.\<close>
lemma balance_coin_raises:
  "balance_coin src I M fee wd dep lb st cn = Inl e \<longleftrightarrow>
   e = CLIError \<and> 1 < length (max_indexes (get_or_empty (passed_db st) cn))"
  by (auto simp: balance_coin_def Let_def split: prod.splits)

lemma balance_coin_returns:
  assumes "balance_coin src I M fee wd dep lb st cn = Inr st'"
  shows "txouts_result st' = txouts_result st @ change_txouts src I (passed_db st) M fee wd dep lb cn"
    and "passed_db st' =
           (if max_indexes (get_or_empty (passed_db st) cn) = [] then passed_db st
            else AList.update cn (requested_left (get_or_empty (passed_db st) cn)) (passed_db st))"
    and "logged st' = logged st @
           snd (coin_change cn (get_or_empty I cn) (requested_left (get_or_empty (passed_db st) cn))
                  M fee wd dep lb)"
proof -
  let ?outs = "get_or_empty (passed_db st) cn"
  from assms have le: "length (max_indexes ?outs) \<le> 1"
    by (auto simp: balance_coin_def Let_def split: if_splits)
  have nle: "\<not> 1 < length (max_indexes ?outs)" using le by simp
  have "balance_coin src I M fee wd dep lb st cn =
    Inr (case coin_change cn (get_or_empty I cn) (requested_left ?outs) M fee wd dep lb of
      (change, logs) \<Rightarrow>
        \<lparr>txouts_result = txouts_result st @
           (if change > 0 then [\<lparr>txout.address = address_or (change_destination ?outs) src,
                                   txout.amount = change, txout.coin = cn\<rparr>] else []),
         passed_db = (if max_indexes ?outs \<noteq> [] then AList.update cn (requested_left ?outs) (passed_db st)
                      else passed_db st),
         logged = logged st @ logs\<rparr>)"
  proof (cases "max_indexes ?outs = []")
    case True
    then show ?thesis
      by (simp add: balance_coin_def Let_def requested_left_id change_destination_None
            split: prod.splits)
  next
    case False
    with nle show ?thesis
      by (simp add: balance_coin_def Let_def pop_single [OF le False]
            max_address_destination [OF False] split: prod.splits)
  qed
  with assms have st': "st' = (case coin_change cn (get_or_empty I cn) (requested_left ?outs) M fee wd dep lb of
      (change, logs) \<Rightarrow>
        \<lparr>txouts_result = txouts_result st @
           (if change > 0 then [\<lparr>txout.address = address_or (change_destination ?outs) src,
                                   txout.amount = change, txout.coin = cn\<rparr>] else []),
         passed_db = (if max_indexes ?outs \<noteq> [] then AList.update cn (requested_left ?outs) (passed_db st)
                      else passed_db st),
         logged = logged st @ logs\<rparr>)"
    by simp
  show "txouts_result st' = txouts_result st @ change_txouts src I (passed_db st) M fee wd dep lb cn"
    unfolding st' by (simp add: change_txouts_def change_of_def Let_def split: prod.splits)
  show "passed_db st' =
           (if max_indexes ?outs = [] then passed_db st
            else AList.update cn (requested_left ?outs) (passed_db st))"
    unfolding st' by (simp split: prod.splits)
  show "logged st' = logged st @
           snd (coin_change cn (get_or_empty I cn) (requested_left ?outs) M fee wd dep lb)"
    unfolding st' by (simp split: prod.splits)
qed

lemma get_or_empty_update:
  "get_or_empty (AList.update k v db) k' = (if k' = k then v else get_or_empty db k')"
  by (simp add: get_or_empty_def AList.update_conv')

lemma balance_coin_other:
  assumes "balance_coin src I M fee wd dep lb st cn = Inr st'" and "cn' \<noteq> cn"
  shows "get_or_empty (passed_db st') cn' = get_or_empty (passed_db st) cn'"
  using assms(2) by (simp add: balance_coin_returns(2) [OF assms(1)] get_or_empty_update)

lemma change_txouts_cong:
  assumes "get_or_empty P cn = get_or_empty P' cn"
  shows "change_txouts src I P M fee wd dep lb cn = change_txouts src I P' M fee wd dep lb cn"
  unfolding change_txouts_def change_of_def assms ..

lemma balance_loop_result:
  assumes "balance_loop src I M fee wd dep lb cs st = (None, st')" and "distinct cs"
  shows "txouts_result st' =
           txouts_result st @ concat (map (change_txouts src I (passed_db st) M fee wd dep lb) cs)"
  using assms
proof (induction cs arbitrary: st)
  case Nil
  then show ?case by simp
next
  case (Cons cn cs)
  from Cons.prems(1) obtain st1 where
    st1: "balance_coin src I M fee wd dep lb st cn = Inr st1"
    and rest: "balance_loop src I M fee wd dep lb cs st1 = (None, st')"
    by (auto split: sum.splits)
  have same: "\<And>c. c \<in> set cs \<Longrightarrow>
      change_txouts src I (passed_db st1) M fee wd dep lb c
      = change_txouts src I (passed_db st) M fee wd dep lb c"
    using Cons.prems(2) by (intro change_txouts_cong balance_coin_other [OF st1]) auto
  from Cons.IH [OF rest] Cons.prems(2)
  have "txouts_result st' =
          txouts_result st1 @ concat (map (change_txouts src I (passed_db st1) M fee wd dep lb) cs)"
    by simp
  also have "map (change_txouts src I (passed_db st1) M fee wd dep lb) cs
           = map (change_txouts src I (passed_db st) M fee wd dep lb) cs"
    using same by simp
  finally show ?case by (simp add: balance_coin_returns(1) [OF st1])
qed

lemma update_as_map:
  "distinct (map fst db) \<Longrightarrow> map_of db k = Some v \<Longrightarrow>
   AList.update k (f v) db = map (\<lambda>(k', v'). (k', if k' = k then f v' else v')) db"
proof (induction db)
  case Nil
  then show ?case by simp
next
  case (Cons p db)
  show ?case
  proof (cases "fst p = k")
    case True
    with Cons.prems have "snd p = v" "k \<notin> fst ` set db" by auto
    then have "map (\<lambda>(k', v'). (k', if k' = k then f v' else v')) db = db"
      by (intro map_idI) (auto simp: rev_image_eqI)
    with True \<open>snd p = v\<close> show ?thesis by (cases p) simp
  next
    case False
    with Cons show ?thesis by (cases p) auto
  qed
qed

lemma requested_left_idem [simp]: "requested_left (requested_left xs) = requested_left xs"
  by (simp add: requested_left_def)

lemma get_or_empty_Nil_no_key:
  "map_of db k = None \<Longrightarrow> map (\<lambda>(k', v'). (k', if k' = k then f v' else v')) db = db"
  by (intro map_idI) (auto simp: map_of_eq_None_iff rev_image_eqI)

lemma balance_coin_db:
  assumes "balance_coin src I M fee wd dep lb st cn = Inr st'"
    and "distinct (map fst (passed_db st))"
  shows "passed_db st' =
           map (\<lambda>(k, v). (k, if k = cn then requested_left v else v)) (passed_db st)"
proof (cases "map_of (passed_db st) cn")
  case None
  then have "get_or_empty (passed_db st) cn = []" by (simp add: get_or_empty_def)
  then show ?thesis
    using None by (simp add: balance_coin_returns(2) [OF assms(1)] get_or_empty_Nil_no_key)
next
  case (Some outs)
  then have g: "get_or_empty (passed_db st) cn = outs" by (simp add: get_or_empty_def)
  have u: "AList.update cn (requested_left outs) (passed_db st)
         = map (\<lambda>(k, v). (k, if k = cn then requested_left v else v)) (passed_db st)"
    using assms(2) Some by (rule update_as_map)
  show ?thesis
  proof (cases "max_indexes outs = []")
    case True
    then have "requested_left outs = outs" by (rule requested_left_id)
    with u have "map (\<lambda>(k, v). (k, if k = cn then requested_left v else v)) (passed_db st) = passed_db st"
      using Some by (simp add: AList.update_triv)
    with True show ?thesis by (simp add: balance_coin_returns(2) [OF assms(1)] g)
  next
    case False
    with u show ?thesis by (simp add: balance_coin_returns(2) [OF assms(1)] g)
  qed
qed

lemma balance_loop_db:
  assumes "balance_loop src I M fee wd dep lb cs st = (None, st')"
    and "distinct (map fst (passed_db st))"
  shows "passed_db st' =
           map (\<lambda>(k, v). (k, if k \<in> set cs then requested_left v else v)) (passed_db st)"
  using assms
proof (induction cs arbitrary: st)
  case Nil
  then show ?case by simp
next
  case (Cons cn cs)
  from Cons.prems(1) obtain st1 where
    st1: "balance_coin src I M fee wd dep lb st cn = Inr st1"
    and rest: "balance_loop src I M fee wd dep lb cs st1 = (None, st')"
    by (auto split: sum.splits)
  note db1 = balance_coin_db [OF st1 Cons.prems(2)]
  have d1: "distinct (map fst (passed_db st1))"
    using Cons.prems(2) unfolding db1 by (simp add: o_def case_prod_unfold)
  from Cons.IH [OF rest d1] show ?case
    unfolding db1 by (auto simp: o_def case_prod_unfold)
qed

lemma balance_loop_raises:
  "\<exists>c\<in>set cs. 1 < length (max_indexes (get_or_empty (passed_db st) c)) \<Longrightarrow>
   fst (balance_loop src I M fee wd dep lb cs st) = Some CLIError"
proof (induction cs arbitrary: st)
  case Nil
  then show ?case by simp
next
  case (Cons cn cs)
  show ?case
  proof (cases "balance_coin src I M fee wd dep lb st cn")
    case (Inl e)
    then have "e = CLIError" by (simp add: balance_coin_raises)
    with Inl show ?thesis by simp
  next
    case (Inr st1)
    then have no: "\<not> 1 < length (max_indexes (get_or_empty (passed_db st) cn))"
      using balance_coin_raises [of src I M fee wd dep lb st cn CLIError] by auto
    with Cons.prems obtain c where c: "c \<in> set cs" "c \<noteq> cn"
      "1 < length (max_indexes (get_or_empty (passed_db st) c))" by auto
    have "1 < length (max_indexes (get_or_empty (passed_db st1) c))"
      using c(3) by (simp only: balance_coin_other [OF Inr c(2)])
    with c(1) have "\<exists>c\<in>set cs. 1 < length (max_indexes (get_or_empty (passed_db st1) c))"
      by blast
    from Cons.IH [OF this] Inr show ?thesis by simp
  qed
qed

lemma balance_loop_no_raise:
  "\<forall>c\<in>set cs. length (max_indexes (get_or_empty (passed_db st) c)) \<le> 1 \<Longrightarrow>
   fst (balance_loop src I M fee wd dep lb cs st) = None"
proof (induction cs arbitrary: st)
  case Nil
  then show ?case by simp
next
  case (Cons cn cs)
  from Cons.prems have "\<not> 1 < length (max_indexes (get_or_empty (passed_db st) cn))" by auto
  then obtain st1 where st1: "balance_coin src I M fee wd dep lb st cn = Inr st1"
    using balance_coin_raises [of src I M fee wd dep lb st cn]
    by (cases "balance_coin src I M fee wd dep lb st cn") auto
  have "\<forall>c\<in>set cs. length (max_indexes (get_or_empty (passed_db st1) c)) \<le> 1"
  proof
    fix c assume c: "c \<in> set cs"
    show "length (max_indexes (get_or_empty (passed_db st1) c)) \<le> 1"
    proof (cases "c = cn")
      case True
      have "length (max_indexes (requested_left xs)) = 0" for xs
        by (simp add: length_max_indexes requested_left_def)
      then show ?thesis using Cons.prems True
        by (simp add: balance_coin_returns(2) [OF st1] get_or_empty_update)
    next
      case False
      with balance_coin_other [OF st1 False] Cons.prems c show ?thesis by simp
    qed
  qed
  from Cons.IH [OF this] st1 show ?case by simp
qed

lemma change_txouts_positive: "\<forall>r\<in>set (change_txouts src I P M fee wd dep lb cn). 0 < txout.amount r"
  by (simp add: change_txouts_def Let_def)

lemma balance_txouts_result:
  assumes "fst (balance_txouts set_order src txouts I P M fee wd dep lb) = Inr res"
    and "distinct (set_order (coin_keys I P M))"
  shows "res = [r \<leftarrow> txouts. 0 < txout.amount r]
               @ concat (map (change_txouts src I P M fee wd dep lb) (set_order (coin_keys I P M)))"
proof -
  let ?st0 = "\<lparr>txouts_result = txouts, passed_db = P, logged = []\<rparr>"
  obtain e st' where
    run: "balance_loop src I M fee wd dep lb (set_order (coin_keys I P M)) ?st0 = (e, st')"
    by (cases "balance_loop src I M fee wd dep lb (set_order (coin_keys I P M)) ?st0")
  with assms(1) have e: "e = None" and res: "res = [r \<leftarrow> txouts_result st'. 0 < txout.amount r]"
    by (auto simp: balance_txouts_def split: option.splits)
  from balance_loop_result [OF run [unfolded e] assms(2)]
  have "txouts_result st' = txouts @
      concat (map (change_txouts src I P M fee wd dep lb) (set_order (coin_keys I P M)))"
    by simp
  moreover have "[r \<leftarrow> concat (map (change_txouts src I P M fee wd dep lb) cs). 0 < txout.amount r]
      = concat (map (change_txouts src I P M fee wd dep lb) cs)" for cs
    using change_txouts_positive by (intro filter_True) auto
  ultimately show ?thesis unfolding res by simp
qed

lemma balance_txouts_db:
  assumes "fst (balance_txouts set_order src txouts I P M fee wd dep lb) = Inr res"
    and "distinct (map fst P)" and "fst ` set P \<subseteq> set (set_order (coin_keys I P M))"
  shows "fst (snd (balance_txouts set_order src txouts I P M fee wd dep lb))
           = map (\<lambda>(cn, outs). (cn, requested_left outs)) P"
proof -
  let ?st0 = "\<lparr>txouts_result = txouts, passed_db = P, logged = []\<rparr>"
  obtain e st' where
    run: "balance_loop src I M fee wd dep lb (set_order (coin_keys I P M)) ?st0 = (e, st')"
    by (cases "balance_loop src I M fee wd dep lb (set_order (coin_keys I P M)) ?st0")
  with assms(1) have e: "e = None"
    by (auto simp: balance_txouts_def split: option.splits)
  from balance_loop_db [OF run [unfolded e]] assms(2)
  have "passed_db st' = map (\<lambda>(k, v). (k, if k \<in> set (set_order (coin_keys I P M))
                                          then requested_left v else v)) P"
    by simp
  also have "\<dots> = map (\<lambda>(cn, outs). (cn, requested_left outs)) P"
    using assms(3) by (intro map_cong) auto
  finally show ?thesis using run e by (simp add: balance_txouts_def)
qed

lemma distinct_coin_keys [simp]: "distinct (coin_keys I P M)"
  by (simp add: coin_keys_def)

lemma set_coin_keys: "set (coin_keys I P M) = fst ` set I \<union> fst ` set P \<union> fst ` set M"
  by (auto simp: coin_keys_def)

lemma enumerates_coin_keys:
  "enumerates set_order \<Longrightarrow>
   set (set_order (coin_keys I P M)) = fst ` set I \<union> fst ` set P \<union> fst ` set M
   \<and> distinct (set_order (coin_keys I P M))"
  using distinct_coin_keys [of I P M] by (simp add: enumerates_def set_coin_keys)

lemma enumerates_id: "enumerates (\<lambda>ks. ks)"
  by (simp add: enumerates_def)

lemma coin_change_identity:
  "(cn = DEFAULT_COIN \<longrightarrow>
      reduce_amount utxodata.amount ins + reduce_amount txout.amount wd
      = reduce_amount txout.amount outs + max fee 0 + dep
        + fst (coin_change cn ins outs M fee wd dep False))
   \<and> (cn \<noteq> DEFAULT_COIN \<longrightarrow>
      reduce_amount utxodata.amount ins + reduce_amount txout.amount (get_or_empty M cn)
      = reduce_amount txout.amount outs + fst (coin_change cn ins outs M fee wd dep False))"
  by (simp add: coin_change_def Let_def max_def)

section \<open>Facts about the orchestrator\<close>

lemma balance_txouts_raises:
  assumes "\<exists>c\<in>set (set_order (coin_keys I P M)). 1 < length (max_indexes (get_or_empty P c))"
  shows "fst (balance_txouts set_order src txouts I P M fee wd dep lb) = Inl CLIError"
proof -
  let ?st0 = "\<lparr>txouts_result = txouts, passed_db = P, logged = []\<rparr>"
  from assms have "\<exists>c\<in>set (set_order (coin_keys I P M)).
      1 < length (max_indexes (get_or_empty (passed_db ?st0) c))" by simp
  from balance_loop_raises [OF this, of src I M fee wd dep lb]
  show ?thesis by (auto simp: balance_txouts_def split: prod.splits option.splits)
qed

lemma organize_two_sentinels:
  assumes "enumerates set_order"
    and "1 < length [r \<leftarrow> txouts. txout.coin r = cn \<and> txout.amount r = - 1]"
  shows "\<exists>c\<in>set (set_order (coin_keys I (organize_txouts_by_coin txouts) M)).
           1 < length (max_indexes (get_or_empty (organize_txouts_by_coin txouts) c))"
proof -
  have f: "[r \<leftarrow> [r \<leftarrow> txouts. txout.coin r = cn]. txout.amount r = - 1]
           = [r \<leftarrow> txouts. txout.coin r = cn \<and> txout.amount r = - 1]"
    by (simp add: conj_commute)
  from assms(2) have "[r \<leftarrow> txouts. txout.coin r = cn \<and> txout.amount r = - 1] \<noteq> []" by auto
  then obtain r where "r \<in> set txouts" "txout.coin r = cn" by (auto simp: filter_empty_conv)
  then have "cn \<in> fst ` set (organize_txouts_by_coin txouts)"
    using keys_organize_by [of txout.coin txouts] by (auto simp: organize_txouts_by_coin_def)
  then have "cn \<in> set (set_order (coin_keys I (organize_txouts_by_coin txouts) M))"
    using enumerates_coin_keys [OF assms(1), of I "organize_txouts_by_coin txouts" M] by blast
  moreover have "1 < length (max_indexes (get_or_empty (organize_txouts_by_coin txouts) cn))"
    using assms(2)
    by (simp add: length_max_indexes organize_txouts_by_coin_def get_or_empty_organize_by f)
  ultimately show ?thesis by blast
qed

text \<open>The orchestrator once both lookups have answered.\<close>
lemma get_tx_ins_outs_steps:
  assumes "fetch_txins clusterlib_obj src_address
             (case txins_arg of None \<Rightarrow> [] | Some given \<Rightarrow> given)
             ({DEFAULT_COIN} \<union> set (map fst (organize_txouts_by_coin mint_txouts))
                \<union> set (map fst (organize_txouts_by_coin txouts))) = (ev_utxo, Inr txins_all)"
    and "fetch_deposit clusterlib_obj tx_files deposit = (ev_deposit, Inr tx_deposit)"
    and "filter_txins set_order (cl_min_change_value clusterlib_obj)
             (case txins_arg of None \<Rightarrow> [] | Some given \<Rightarrow> given) txins_all
             (organize_utxos_by_coin txins_all) (organize_txouts_by_coin txouts)
             (organize_txouts_by_coin mint_txouts) fee withdrawals tx_deposit
           = (txins_filtered, txins_db_filtered)"
    and "balance_txouts set_order src_address txouts txins_db_filtered
           (organize_txouts_by_coin txouts) (organize_txouts_by_coin mint_txouts) fee withdrawals
           tx_deposit lovelace_balanced = (res, db, logs)"
  shows "get_tx_ins_outs set_order clusterlib_obj src_address tx_files txins_arg txouts fee
           deposit withdrawals mint_txouts lovelace_balanced
       = (ev_utxo @ ev_deposit
          @ check_txins txins_all (organize_utxos_by_coin txins_all)
              (DEFAULT_COIN # map fst (organize_txouts_by_coin txouts))
              (organize_txouts_by_coin mint_txouts)
          @ (if txins_filtered = [] then [Logged Empty_txins] else [])
          @ map Logged logs,
          case res of Inl e \<Rightarrow> Inl e | Inr txouts_balanced \<Rightarrow> Inr (txins_filtered, txouts_balanced))"
  unfolding get_tx_ins_outs_def Let_def assms prod.case sum.case
  by (cases res) simp_all

lemma enumerates_single: "enumerates set_order \<Longrightarrow> set_order [k] = [k]"
proof -
  assume "enumerates set_order"
  then have s: "set (set_order [k]) = {k}" and d: "distinct (set_order [k])"
    by (simp_all add: enumerates_def)
  show ?thesis
  proof (cases "set_order [k]")
    case Nil
    with s show ?thesis by simp
  next
    case (Cons a as)
    with s d have "a = k" "set as \<subseteq> {k}" "a \<notin> set as" by auto
    then have "as = []" by (cases as) auto
    with Cons \<open>a = k\<close> show ?thesis by simp
  qed
qed

lemma select_utxos_single:
  "enumerates set_order \<Longrightarrow> coin_keys I P M = [k] \<Longrightarrow>
   select_utxos set_order I P M fee wd mcv d = select_utxos (\<lambda>ks. ks) I P M fee wd mcv d"
  by (simp add: select_utxos_def enumerates_single)

lemma filter_txins_single:
  "enumerates set_order \<Longrightarrow> coin_keys I P M = [k] \<Longrightarrow>
   filter_txins set_order mcv txins txins_all I P M fee wd d
   = filter_txins (\<lambda>ks. ks) mcv txins txins_all I P M fee wd d"
  by (simp add: filter_txins_def select_utxos_single)

lemma balance_txouts_single:
  "enumerates set_order \<Longrightarrow> coin_keys I P M = [k] \<Longrightarrow>
   balance_txouts set_order src txouts I P M fee wd d lb
   = balance_txouts (\<lambda>ks. ks) src txouts I P M fee wd d lb"
  by (simp add: balance_txouts_def enumerates_single)

section \<open>Facts about the decoder\<close>

lemma asset_loop_result:
  "py_int ix_text = Some ix \<Longrightarrow>
   asset_loop h ix_text a ua dh p assets utxo = Inr (utxo @ map (asset_utxo h ix a ua dh p) assets)"
  by (induction assets arbitrary: utxo) simp_all

section \<open>Facts about selection among UTXOs of the base coin\<close>

lemma filter_same_key:
  "distinct (map f xs) \<Longrightarrow> x \<in> set xs \<Longrightarrow> [y \<leftarrow> xs. f y = f x] = [x]"
proof (induction xs)
  case Nil
  then show ?case by simp
next
  case (Cons a xs)
  show ?case
  proof (cases "a = x")
    case True
    with Cons.prems(1) have "f x \<notin> f ` set xs" by simp
    then have "\<forall>y\<in>set xs. f y \<noteq> f x" by (metis imageI)
    then have "[y \<leftarrow> xs. f y = f x] = []" by (simp add: filter_empty_conv)
    with True show ?thesis by simp
  next
    case False
    with Cons.prems have "x \<in> set xs" "f a \<noteq> f x" by auto
    with Cons show ?thesis by simp
  qed
qed

lemma utxos_with_coins_loop_all:
  assumes "\<forall>r\<in>set rest. utxodata.coin r \<in> coins \<and> get_or_empty by_id (utxo_id r) = [r]"
    and "distinct (map utxo_id rest)" and "set seen \<inter> utxo_id ` set rest = {}"
  shows "utxos_with_coins_loop by_id coins rest txins seen = txins @ rest"
  using assms
proof (induction rest arbitrary: txins seen)
  case Nil
  then show ?case by simp
next
  case (Cons r rest)
  have "utxos_with_coins_loop by_id coins rest (txins @ [r]) (utxo_id r # seen)
        = (txins @ [r]) @ rest"
    using Cons.prems by (intro Cons.IH) auto
  with Cons.prems show ?case by auto
qed

lemma get_utxos_with_coins_all:
  assumes "\<forall>u\<in>set utxos. utxodata.coin u \<in> coins" and "distinct (map utxo_id utxos)"
  shows "get_utxos_with_coins utxos coins = utxos"
proof -
  have "\<forall>r\<in>set utxos. get_or_empty (organize_utxos_by_id utxos) (utxo_id r) = [r]"
    using assms(2)
    by (simp add: organize_utxos_by_id_def get_or_empty_organize_by filter_same_key)
  with assms show ?thesis
    unfolding get_utxos_with_coins_def
    by (subst utxos_with_coins_loop_all) auto
qed

lemma select_coin_union:
  "select_coin I P M fee wd mcv d ids cn = ids \<union> select_coin I P M fee wd mcv d {} cn"
  by (simp add: select_coin_def Let_def)

lemma foldl_select_coin:
  "foldl (select_coin I P M fee wd mcv d) ids cs
   = ids \<union> (\<Union>cn\<in>set cs. select_coin I P M fee wd mcv d {} cn)"
proof (induction cs arbitrary: ids)
  case Nil
  show ?case by simp
next
  case (Cons c cs)
  show ?case
    unfolding foldl_Cons Cons.IH
    by (subst select_coin_union) auto
qed

lemma select_coin_no_inputs:
  "get_or_empty I cn = [] \<Longrightarrow> select_coin I P M fee wd mcv d {} cn = {}"
  by (simp add: select_coin_def Let_def collect_utxos_amount_def)

lemma collect_utxos_amount_Nil [simp]: "collect_utxos_amount [] amnt mcv = []"
  by (simp add: collect_utxos_amount_def)

lemma get_or_empty_base_only:
  assumes "\<forall>u\<in>set utxos. utxodata.coin u = DEFAULT_COIN"
  shows "get_or_empty (organize_utxos_by_coin utxos) cn = (if cn = DEFAULT_COIN then utxos else [])"
  using assms
  by (auto simp: organize_utxos_by_coin_def get_or_empty_organize_by filter_empty_conv
        intro: filter_True)

lemma select_utxos_base_only:
  assumes "enumerates set_order"
    and "\<forall>u\<in>set utxos. utxodata.coin u = DEFAULT_COIN"
    and "\<forall>r\<in>set (get_or_empty P DEFAULT_COIN). txout.amount r \<noteq> - 1"
  shows "select_utxos set_order (organize_utxos_by_coin utxos) P M fee wd mcv d
         = set (map utxo_id (collect_utxos_amount utxos
             (input_funds_needed DEFAULT_COIN (get_or_empty P DEFAULT_COIN) M fee wd d) mcv))"
proof -
  let ?I = "organize_utxos_by_coin utxos"
  let ?keys = "set_order (coin_keys ?I P M)"
  let ?sel = "set (map utxo_id (collect_utxos_amount utxos
             (input_funds_needed DEFAULT_COIN (get_or_empty P DEFAULT_COIN) M fee wd d) mcv))"
  have other: "select_coin ?I P M fee wd mcv d {} cn = {}" if "cn \<noteq> DEFAULT_COIN" for cn
    using that by (intro select_coin_no_inputs) (simp add: get_or_empty_base_only [OF assms(2)])
  have base: "select_coin ?I P M fee wd mcv d {} DEFAULT_COIN = ?sel"
    using assms(3)
    by (simp add: select_coin_def Let_def max_indexes_Nil_iff get_or_empty_base_only [OF assms(2)])
  have u: "(\<Union>cn\<in>set ?keys. select_coin ?I P M fee wd mcv d {} cn)
           = (if DEFAULT_COIN \<in> set ?keys then ?sel else {})"
  proof -
    have each: "select_coin ?I P M fee wd mcv d {} cn = (if cn = DEFAULT_COIN then ?sel else {})" for cn
      using other [of cn] base by simp
    show ?thesis unfolding each by auto
  qed
  have "?sel = {}" if "DEFAULT_COIN \<notin> set ?keys"
  proof -
    from that have "DEFAULT_COIN \<notin> fst ` set ?I"
      using enumerates_coin_keys [OF assms(1), of ?I P M] by auto
    then have "DEFAULT_COIN \<notin> utxodata.coin ` set utxos"
      using keys_organize_by [of utxodata.coin utxos] by (simp add: organize_utxos_by_coin_def)
    with assms(2) have "utxos = []" by (cases utxos) auto
    then show ?thesis by simp
  qed
  with u show ?thesis by (simp add: select_utxos_def foldl_select_coin)
qed

lemma filter_prefix_disjoint:
  "f ` set as \<inter> f ` set bs = {} \<Longrightarrow> [x \<leftarrow> as @ bs. f x \<in> f ` set as] = as"
  by (auto simp: filter_empty_conv intro: filter_True)

lemma filter_take_distinct:
  assumes "distinct (map f xs)"
  shows "[x \<leftarrow> xs. f x \<in> f ` set (take k xs)] = take k xs"
proof -
  have "distinct (map f (take k xs) @ map f (drop k xs))"
    using assms by (metis append_take_drop_id map_append)
  then have "f ` set (take k xs) \<inter> f ` set (drop k xs) = {}" by auto
  then have "[x \<leftarrow> take k xs @ drop k xs. f x \<in> f ` set (take k xs)] = take k xs"
    by (rule filter_prefix_disjoint)
  then show ?thesis by (simp only: append_take_drop_id)
qed

lemma collect_is_prefix: "\<exists>k. collect_utxos_amount utxos amnt mcv = take k utxos"
  using collect_loop_prefix [of utxos amnt _ "[]" 0]
  by (auto simp: collect_utxos_amount_def Let_def)

lemma expand_selected:
  assumes "distinct (map utxo_id utxos)" and "c = take k utxos"
  shows "concat (map snd (filter (\<lambda>(uid, utxo). uid \<in> utxo_id ` set c)
                            (organize_utxos_by_id utxos))) = c"
proof -
  have "filter (\<lambda>(uid, utxo). uid \<in> utxo_id ` set c) (map (\<lambda>x. (utxo_id x, [x])) utxos)
        = map (\<lambda>x. (utxo_id x, [x])) [x \<leftarrow> utxos. utxo_id x \<in> utxo_id ` set (take k utxos)]"
    by (simp add: filter_map o_def assms(2))
  also have "\<dots> = map (\<lambda>x. (utxo_id x, [x])) (take k utxos)"
    by (simp only: filter_take_distinct [OF assms(1)])
  finally show ?thesis
    by (simp add: organize_utxos_by_id_def organize_by_distinct [OF assms(1)] o_def assms(2))
qed

lemma filter_txins_base_only:
  assumes "enumerates set_order"
    and "\<forall>u\<in>set utxos. utxodata.coin u = DEFAULT_COIN"
    and "distinct (map utxo_id utxos)"
    and "\<forall>r\<in>set (get_or_empty P DEFAULT_COIN). txout.amount r \<noteq> - 1"
    and "c = collect_utxos_amount utxos
               (input_funds_needed DEFAULT_COIN (get_or_empty P DEFAULT_COIN) M fee wd d) mcv"
  shows "filter_txins set_order mcv [] utxos (organize_utxos_by_coin utxos) P M fee wd d
         = (c, organize_utxos_by_coin c)"
proof -
  obtain k where k: "c = take k utxos" using collect_is_prefix assms(5) by blast
  show ?thesis
    unfolding filter_txins_def Let_def select_utxos_base_only [OF assms(1,2,4)] assms(5) [symmetric]
    by (simp add: expand_selected [OF assms(3) k])
qed

lemma collect_base_trichotomy:
  assumes "\<forall>u\<in>set utxos. utxodata.coin u = DEFAULT_COIN"
    and "c = collect_utxos_amount utxos amnt mcv"
  shows "c = utxos \<or> reduce_amount utxodata.amount c = amnt
         \<or> amnt + mcv \<le> reduce_amount utxodata.amount c"
proof (cases utxos)
  case Nil
  with assms(2) show ?thesis by simp
next
  case (Cons u us)
  with assms(1) have run: "c = collect_loop utxos amnt (amnt + mcv) [] 0"
    using assms(2) by (simp add: collect_utxos_amount_def)
  from collect_loop_prefix [of utxos amnt "amnt + mcv" "[]" 0]
  obtain k where "k \<le> length utxos" "c = take k utxos"
    "k < length utxos \<longrightarrow> (reduce_amount utxodata.amount (take k utxos) = amnt
        \<or> amnt + mcv \<le> reduce_amount utxodata.amount (take k utxos))"
    unfolding run by auto
  then show ?thesis by (cases "k = length utxos") auto
qed

lemma change_destination_no_sentinel:
  "\<forall>r\<in>set outs. txout.amount r \<noteq> - 1 \<Longrightarrow> change_destination outs = None"
  by (simp add: change_destination_def filter_empty_conv)

lemma requested_left_no_sentinel:
  "\<forall>r\<in>set outs. txout.amount r \<noteq> - 1 \<Longrightarrow> requested_left outs = outs"
  by (simp add: requested_left_def)

section \<open>The collector stops at the first sufficient prefix\<close>

text \<open>
  Claim C2. For a list of UTXOs of one coin \<open>c\<close>, the collector returns a prefix
  \<open>take k utxos\<close> of the list in the given order; \<open>k\<close> is the first prefix length whose
  running total equals \<open>amount\<close> or reaches \<open>amount + min_change_value\<close> when \<open>c\<close> is
  the base coin, respectively reaches \<open>amount\<close> when it is not (the minimum change value
  is ignored), and the whole list when no prefix does.
\<close>
theorem collect_utxos_amount_first_prefix:
  assumes "\<forall>u\<in>set utxos. utxodata.coin u = c"
  shows "\<exists>k\<le>length utxos.
     collect_utxos_amount utxos amnt min_change_value = take k utxos
     \<and> (k < length utxos \<longrightarrow>
          collection_reached c amnt min_change_value (reduce_amount utxodata.amount (take k utxos)))
     \<and> (\<forall>j<k. \<not> collection_reached c amnt min_change_value
                   (reduce_amount utxodata.amount (take j utxos)))"
proof (cases utxos)
  case Nil
  then show ?thesis by (simp add: collect_utxos_amount_def)
next
  case (Cons u us)
  with assms have cu: "utxodata.coin u = c" by simp
  define apc where "apc = (if c = DEFAULT_COIN then amnt + min_change_value else amnt)"
  have run: "collect_utxos_amount utxos amnt min_change_value = collect_loop utxos amnt apc [] 0"
    using Cons cu by (simp add: collect_utxos_amount_def apc_def)
  have reached: "\<And>t. collection_reached c amnt min_change_value t \<longleftrightarrow> (0 + t = amnt \<or> apc \<le> 0 + t)"
    by (auto simp: collection_reached_def apc_def)
  from collect_loop_prefix [of utxos amnt apc "[]" 0]
  show ?thesis unfolding run reached by simp
qed

theorem collect_utxos_amount_first_prefix_witness:
  "let utxos =
     [\<lparr>utxo_hash = ''a'', utxo_ix = 0, utxodata.amount = 5, utxodata.address = ''x'',
        utxodata.coin = ''lovelace'', decoded_coin = '''', datum_hash = ''''\<rparr>,
      \<lparr>utxo_hash = ''b'', utxo_ix = 1, utxodata.amount = 7, utxodata.address = ''x'',
        utxodata.coin = ''lovelace'', decoded_coin = '''', datum_hash = ''''\<rparr>,
      \<lparr>utxo_hash = ''c'', utxo_ix = 0, utxodata.amount = 9, utxodata.address = ''x'',
        utxodata.coin = ''lovelace'', decoded_coin = '''', datum_hash = ''''\<rparr>]
   in (\<forall>u\<in>set utxos. utxodata.coin u = ''lovelace'')
      \<and> (\<exists>k\<le>length utxos. collect_utxos_amount utxos 4 3 = take k utxos)"
proof -
  let ?utxos =
    "[\<lparr>utxo_hash = ''a'', utxo_ix = 0, utxodata.amount = 5, utxodata.address = ''x'',
        utxodata.coin = ''lovelace'', decoded_coin = '''', datum_hash = ''''\<rparr>,
      \<lparr>utxo_hash = ''b'', utxo_ix = 1, utxodata.amount = 7, utxodata.address = ''x'',
        utxodata.coin = ''lovelace'', decoded_coin = '''', datum_hash = ''''\<rparr>,
      \<lparr>utxo_hash = ''c'', utxo_ix = 0, utxodata.amount = 9, utxodata.address = ''x'',
        utxodata.coin = ''lovelace'', decoded_coin = '''', datum_hash = ''''\<rparr>]"
  have h: "\<forall>u\<in>set ?utxos. utxodata.coin u = ''lovelace''" by simp
  from collect_utxos_amount_first_prefix [OF h, of 4 3]
  obtain k where "k \<le> length ?utxos" "collect_utxos_amount ?utxos 4 3 = take k ?utxos"
    by blast
  then have "\<exists>k\<le>length ?utxos. collect_utxos_amount ?utxos 4 3 = take k ?utxos"
    by blast
  with h show ?thesis unfolding Let_def by blast
qed

section \<open>Funds needed by the selector\<close>

text \<open>
  Claim C3. For the base coin the selector hands the collector
  \<open>max (outputs + max fee 1 + deposit - withdrawals) (max fee 1)\<close>; this value is never
  below \<open>max fee 1\<close>, whatever the withdrawals are. When no requested output of the base
  coin has the amount \<open>-1\<close>, the identifiers selected for the base coin are those of the
  collector's result for exactly this amount.
\<close>
theorem base_coin_input_funds_needed:
  "input_funds_needed DEFAULT_COIN coin_txouts txouts_mint_db fee withdrawals deposit
     = max (reduce_amount txout.amount coin_txouts + max fee 1 + deposit
              - reduce_amount txout.amount withdrawals) (max fee 1)
   \<and> max fee 1 \<le> input_funds_needed DEFAULT_COIN coin_txouts txouts_mint_db fee withdrawals deposit
   \<and> ((\<forall>r\<in>set (get_or_empty txouts_passed_db DEFAULT_COIN). txout.amount r \<noteq> - 1) \<longrightarrow>
        select_coin txins_db txouts_passed_db txouts_mint_db fee withdrawals min_change_value deposit
          utxo_ids DEFAULT_COIN
        = utxo_ids \<union> set (map utxo_id
            (collect_utxos_amount (get_or_empty txins_db DEFAULT_COIN)
               (max (reduce_amount txout.amount (get_or_empty txouts_passed_db DEFAULT_COIN)
                       + max fee 1 + deposit - reduce_amount txout.amount withdrawals) (max fee 1))
               min_change_value)))"
proof -
  have eq: "\<And>outs. input_funds_needed DEFAULT_COIN outs txouts_mint_db fee withdrawals deposit
     = max (reduce_amount txout.amount outs + max fee 1 + deposit
              - reduce_amount txout.amount withdrawals) (max fee 1)"
    by (simp add: input_funds_needed_def Let_def max_def)
  show ?thesis
    unfolding eq by (simp add: select_coin_def Let_def max_indexes_Nil_iff eq)
qed

theorem base_coin_input_funds_needed_witness:
  "map txout.amount
     (get_or_empty [(''lovelace'', [\<lparr>txout.address = ''addr2'', txout.amount = 300,
                                     txout.coin = ''lovelace''\<rparr>])] DEFAULT_COIN) = [300]
   \<and> select_coin
        [(''lovelace'', [\<lparr>utxo_hash = ''txA'', utxo_ix = 0, utxodata.amount = 1000,
                          utxodata.address = ''addr1'', utxodata.coin = ''lovelace'',
                          decoded_coin = '''', datum_hash = ''''\<rparr>])]
        [(''lovelace'', [\<lparr>txout.address = ''addr2'', txout.amount = 300,
                          txout.coin = ''lovelace''\<rparr>])]
        [] 10 [\<lparr>txout.address = ''stake1'', txout.amount = 500, txout.coin = ''lovelace''\<rparr>] 0 0
        {} DEFAULT_COIN
      = set (map utxo_id (collect_utxos_amount
          [\<lparr>utxo_hash = ''txA'', utxo_ix = 0, utxodata.amount = 1000,
             utxodata.address = ''addr1'', utxodata.coin = ''lovelace'',
             decoded_coin = '''', datum_hash = ''''\<rparr>] 10 0))"
  using base_coin_input_funds_needed
    [where coin_txouts = "[]" and txouts_mint_db = "[]" and fee = 10 and deposit = 0
       and withdrawals =
         "[\<lparr>txout.address = ''stake1'', txout.amount = 500, txout.coin = ''lovelace''\<rparr>]"
       and txouts_passed_db =
         "[(''lovelace'', [\<lparr>txout.address = ''addr2'', txout.amount = 300,
                            txout.coin = ''lovelace''\<rparr>])]"
       and txins_db =
         "[(''lovelace'', [\<lparr>utxo_hash = ''txA'', utxo_ix = 0, utxodata.amount = 1000,
                            utxodata.address = ''addr1'', utxodata.coin = ''lovelace'',
                            decoded_coin = '''', datum_hash = ''''\<rparr>])]"
       and min_change_value = 0 and utxo_ids = "{}"]
  by (simp add: get_or_empty_def DEFAULT_COIN_def)

section \<open>Coins that need no inputs\<close>

text \<open>
  Claim C6. Let \<open>cn\<close> be a coin other than the base coin, with its inputs grouped
  under its own key, no requested output of amount \<open>-1\<close>, and requested outputs minus
  minted amount at most zero. Then the collector returns no UTXO for the (unclamped)
  amount the code passes, the selector's step adds no identifier, and the step equals
  the step of the specification, which clamps the amount at zero.
\<close>
theorem nonpositive_need_selects_nothing:
  assumes "cn \<noteq> DEFAULT_COIN"
    and "\<forall>u\<in>set (get_or_empty txins_db cn). utxodata.coin u = cn"
    and "\<forall>r\<in>set (get_or_empty txouts_passed_db cn). txout.amount r \<noteq> - 1"
    and "reduce_amount txout.amount (get_or_empty txouts_passed_db cn)
           - reduce_amount txout.amount (get_or_empty txouts_mint_db cn) \<le> 0"
  shows "collect_utxos_amount (get_or_empty txins_db cn)
           (input_funds_needed cn (get_or_empty txouts_passed_db cn) txouts_mint_db fee withdrawals deposit)
           min_change_value = []
     \<and> select_coin txins_db txouts_passed_db txouts_mint_db fee withdrawals min_change_value deposit
         utxo_ids cn = utxo_ids
     \<and> select_coin txins_db txouts_passed_db txouts_mint_db fee withdrawals min_change_value deposit
         utxo_ids cn
       = select_coin_clamped txins_db txouts_passed_db txouts_mint_db fee withdrawals
           min_change_value deposit utxo_ids cn"
proof -
  let ?need = "input_funds_needed cn (get_or_empty txouts_passed_db cn) txouts_mint_db fee withdrawals deposit"
  have need: "?need \<le> 0" using assms(1,4) by (simp add: input_funds_needed_def Let_def)
  have nb: "\<forall>u\<in>set (get_or_empty txins_db cn). utxodata.coin u \<noteq> DEFAULT_COIN"
    using assms(1,2) by simp
  have a: "collect_utxos_amount (get_or_empty txins_db cn) ?need min_change_value = []"
    using need nb by (rule collect_nonpositive)
  have b: "collect_utxos_amount (get_or_empty txins_db cn) (max 0 ?need) min_change_value = []"
    using nb by (intro collect_nonpositive) (use need in simp_all)
  have m: "max_indexes (get_or_empty txouts_passed_db cn) = []"
    using assms(3) by (simp add: max_indexes_Nil_iff)
  show ?thesis
    using a b m by (simp add: select_coin_def select_coin_clamped_def Let_def)
qed

theorem nonpositive_need_selects_nothing_witness:
  "''tok'' \<noteq> DEFAULT_COIN
   \<and> reduce_amount txout.amount
         (get_or_empty [(''tok'', [\<lparr>txout.address = ''addr2'', txout.amount = 20,
                                    txout.coin = ''tok''\<rparr>])] ''tok'')
       - reduce_amount txout.amount
           (get_or_empty [(''tok'', [\<lparr>txout.address = ''addr1'', txout.amount = 50,
                                      txout.coin = ''tok''\<rparr>])] ''tok'') \<le> 0
   \<and> select_coin
        [(''tok'', [\<lparr>utxo_hash = ''txA'', utxo_ix = 0, utxodata.amount = 100,
                     utxodata.address = ''addr1'', utxodata.coin = ''tok'',
                     decoded_coin = '''', datum_hash = ''''\<rparr>])]
        [(''tok'', [\<lparr>txout.address = ''addr2'', txout.amount = 20, txout.coin = ''tok''\<rparr>])]
        [(''tok'', [\<lparr>txout.address = ''addr1'', txout.amount = 50, txout.coin = ''tok''\<rparr>])]
        10 [] 7 0 {''txB#1''} ''tok''
      = {''txB#1''}"
proof -
  let ?ins = "[(''tok'', [\<lparr>utxo_hash = ''txA'', utxo_ix = 0, utxodata.amount = 100,
                     utxodata.address = ''addr1'', utxodata.coin = ''tok'',
                     decoded_coin = '''', datum_hash = ''''\<rparr>])]"
  let ?outs = "[(''tok'', [\<lparr>txout.address = ''addr2'', txout.amount = 20, txout.coin = ''tok''\<rparr>])]"
  let ?mint = "[(''tok'', [\<lparr>txout.address = ''addr1'', txout.amount = 50, txout.coin = ''tok''\<rparr>])]"
  have h1: "''tok'' \<noteq> DEFAULT_COIN" by (simp add: DEFAULT_COIN_def)
  have h2: "\<forall>u\<in>set (get_or_empty ?ins ''tok''). utxodata.coin u = ''tok''"
    by (simp add: get_or_empty_def)
  have h3: "\<forall>r\<in>set (get_or_empty ?outs ''tok''). txout.amount r \<noteq> - 1"
    by (simp add: get_or_empty_def)
  have h4: "reduce_amount txout.amount (get_or_empty ?outs ''tok'')
              - reduce_amount txout.amount (get_or_empty ?mint ''tok'') \<le> 0"
    by (simp add: get_or_empty_def)
  from nonpositive_need_selects_nothing [OF h1 h2 h3 h4, of 10 "[]" 0 7 "{''txB#1''}"] h1 h4
  show ?thesis by blast
qed

section \<open>Accounting of the balancer\<close>

text \<open>
  Claim C1, as amended: the fee enters the balance as \<open>max fee 0\<close>. When the balancer
  returns (base-coin balancing not delegated), then for every coin \<open>cn\<close>: for the base
  coin, inputs plus withdrawals equal the requested outputs (without the output of
  amount \<open>-1\<close>) plus \<open>max fee 0\<close> plus deposit plus the change; for any other coin,
  inputs plus minted amount equal the requested outputs plus the change; the change
  output of \<open>cn\<close> exists exactly when its change is positive. The returned list is the
  positive requested outputs followed by the change outputs of the coins in the order
  of iteration, and it holds no output of amount \<open>\<le> 0\<close>.
\<close>
theorem balance_accounting:
  assumes "enumerates set_order"
    and "fst (balance_txouts set_order src_address txouts txins_db txouts_passed_db txouts_mint_db
                fee withdrawals deposit False) = Inr res"
  shows "(\<forall>cn.
            (cn = DEFAULT_COIN \<longrightarrow>
               reduce_amount utxodata.amount (get_or_empty txins_db cn)
                 + reduce_amount txout.amount withdrawals
               = reduce_amount txout.amount (requested_left (get_or_empty txouts_passed_db cn))
                 + max fee 0 + deposit
                 + change_of txins_db txouts_passed_db txouts_mint_db fee withdrawals deposit False cn)
          \<and> (cn \<noteq> DEFAULT_COIN \<longrightarrow>
               reduce_amount utxodata.amount (get_or_empty txins_db cn)
                 + reduce_amount txout.amount (get_or_empty txouts_mint_db cn)
               = reduce_amount txout.amount (requested_left (get_or_empty txouts_passed_db cn))
                 + change_of txins_db txouts_passed_db txouts_mint_db fee withdrawals deposit False cn)
          \<and> change_txouts src_address txins_db txouts_passed_db txouts_mint_db fee withdrawals
               deposit False cn
             = (if 0 < change_of txins_db txouts_passed_db txouts_mint_db fee withdrawals deposit
                        False cn
                then [\<lparr>txout.address =
                          address_or (change_destination (get_or_empty txouts_passed_db cn))
                            src_address,
                        txout.amount = change_of txins_db txouts_passed_db txouts_mint_db fee
                                         withdrawals deposit False cn,
                        txout.coin = cn\<rparr>]
                else []))
     \<and> res = [r \<leftarrow> txouts. 0 < txout.amount r]
             @ concat (map (change_txouts src_address txins_db txouts_passed_db txouts_mint_db fee
                              withdrawals deposit False)
                         (set_order (coin_keys txins_db txouts_passed_db txouts_mint_db)))
     \<and> (\<forall>r\<in>set res. 0 < txout.amount r)"
proof -
  have d: "distinct (set_order (coin_keys txins_db txouts_passed_db txouts_mint_db))"
    using enumerates_coin_keys [OF assms(1)] by blast
  note res = balance_txouts_result [OF assms(2) d]
  have pos: "\<forall>r\<in>set res. 0 < txout.amount r"
    unfolding res using change_txouts_positive by auto
  have ident: "\<forall>cn.
            (cn = DEFAULT_COIN \<longrightarrow>
               reduce_amount utxodata.amount (get_or_empty txins_db cn)
                 + reduce_amount txout.amount withdrawals
               = reduce_amount txout.amount (requested_left (get_or_empty txouts_passed_db cn))
                 + max fee 0 + deposit
                 + change_of txins_db txouts_passed_db txouts_mint_db fee withdrawals deposit False cn)
          \<and> (cn \<noteq> DEFAULT_COIN \<longrightarrow>
               reduce_amount utxodata.amount (get_or_empty txins_db cn)
                 + reduce_amount txout.amount (get_or_empty txouts_mint_db cn)
               = reduce_amount txout.amount (requested_left (get_or_empty txouts_passed_db cn))
                 + change_of txins_db txouts_passed_db txouts_mint_db fee withdrawals deposit False cn)
          \<and> change_txouts src_address txins_db txouts_passed_db txouts_mint_db fee withdrawals
               deposit False cn
             = (if 0 < change_of txins_db txouts_passed_db txouts_mint_db fee withdrawals deposit
                        False cn
                then [\<lparr>txout.address =
                          address_or (change_destination (get_or_empty txouts_passed_db cn))
                            src_address,
                        txout.amount = change_of txins_db txouts_passed_db txouts_mint_db fee
                                         withdrawals deposit False cn,
                        txout.coin = cn\<rparr>]
                else [])"
    unfolding change_of_def using coin_change_identity
    by (simp add: change_txouts_def change_of_def Let_def)
  from ident res pos show ?thesis by blast
qed

theorem balance_accounting_counterexample:
  "fst (balance_txouts (\<lambda>ks. ks) ''addr1''
          [\<lparr>txout.address = ''addr2'', txout.amount = 300, txout.coin = ''lovelace''\<rparr>]
          [(''lovelace'', [\<lparr>utxo_hash = ''txA'', utxo_ix = 0, utxodata.amount = 1000,
                            utxodata.address = ''addr1'', utxodata.coin = ''lovelace'',
                            decoded_coin = '''', datum_hash = ''''\<rparr>])]
          [(''lovelace'', [\<lparr>txout.address = ''addr2'', txout.amount = 300,
                            txout.coin = ''lovelace''\<rparr>])]
          [] (- 5) [] 0 False)
     = Inr [\<lparr>txout.address = ''addr2'', txout.amount = 300, txout.coin = ''lovelace''\<rparr>,
            \<lparr>txout.address = ''addr1'', txout.amount = 700, txout.coin = ''lovelace''\<rparr>]
   \<and> (1000 :: int) + 0 \<noteq> 300 + (- 5) + 0 + 700"
  by code_simp

theorem balance_accounting_witness:
  "fst (balance_txouts (\<lambda>ks. ks) ''addr1''
          [\<lparr>txout.address = ''addr2'', txout.amount = 300, txout.coin = ''lovelace''\<rparr>]
          [(''lovelace'', [\<lparr>utxo_hash = ''txA'', utxo_ix = 0, utxodata.amount = 1000,
                            utxodata.address = ''addr1'', utxodata.coin = ''lovelace'',
                            decoded_coin = '''', datum_hash = ''''\<rparr>])]
          [(''lovelace'', [\<lparr>txout.address = ''addr2'', txout.amount = 300,
                            txout.coin = ''lovelace''\<rparr>])]
          [] 10 [] 0 False)
     = Inr [\<lparr>txout.address = ''addr2'', txout.amount = 300, txout.coin = ''lovelace''\<rparr>,
            \<lparr>txout.address = ''addr1'', txout.amount = 690, txout.coin = ''lovelace''\<rparr>]
   \<and> change_of
         [(''lovelace'', [\<lparr>utxo_hash = ''txA'', utxo_ix = 0, utxodata.amount = 1000,
                            utxodata.address = ''addr1'', utxodata.coin = ''lovelace'',
                            decoded_coin = '''', datum_hash = ''''\<rparr>])]
         [(''lovelace'', [\<lparr>txout.address = ''addr2'', txout.amount = 300,
                            txout.coin = ''lovelace''\<rparr>])]
         [] 10 [] 0 False DEFAULT_COIN = 690"
proof -
  let ?I = "[(''lovelace'', [\<lparr>utxo_hash = ''txA'', utxo_ix = 0, utxodata.amount = 1000,
                            utxodata.address = ''addr1'', utxodata.coin = ''lovelace'',
                            decoded_coin = '''', datum_hash = ''''\<rparr>])]"
  let ?out = "\<lparr>txout.address = ''addr2'', txout.amount = 300, txout.coin = ''lovelace''\<rparr>"
  have run: "fst (balance_txouts (\<lambda>ks. ks) ''addr1'' [?out] ?I [(''lovelace'', [?out])]
                   [] 10 [] 0 False)
     = Inr [?out, \<lparr>txout.address = ''addr1'', txout.amount = 690, txout.coin = ''lovelace''\<rparr>]"
    by code_simp
  from balance_accounting [OF enumerates_id run, THEN conjunct1, THEN spec, of DEFAULT_COIN]
  have "change_of ?I [(''lovelace'', [?out])] [] 10 [] 0 False DEFAULT_COIN = 690"
    by (simp add: get_or_empty_def DEFAULT_COIN_def requested_left_def)
  with run show ?thesis by simp
qed

section \<open>What the balancer does to the dictionary it is given\<close>

text \<open>
  Claim C8, as amended. The balancer does change the dictionary of requested outputs
  it is given: when it returns, every list of the dictionary has lost its output of
  amount \<open>-1\<close>, and nothing else. The dictionary is unchanged when no list holds such an
  output.
\<close>
theorem balance_passed_db:
  assumes "enumerates set_order"
    and "distinct (map fst txouts_passed_db)"
    and "fst (balance_txouts set_order src_address txouts txins_db txouts_passed_db txouts_mint_db
                fee withdrawals deposit lovelace_balanced) = Inr res"
  shows "fst (snd (balance_txouts set_order src_address txouts txins_db txouts_passed_db
                     txouts_mint_db fee withdrawals deposit lovelace_balanced))
           = map (\<lambda>(cn, outs). (cn, requested_left outs)) txouts_passed_db
     \<and> ((\<forall>cn. \<forall>r\<in>set (get_or_empty txouts_passed_db cn). txout.amount r \<noteq> - 1) \<longrightarrow>
          fst (snd (balance_txouts set_order src_address txouts txins_db txouts_passed_db
                     txouts_mint_db fee withdrawals deposit lovelace_balanced))
           = txouts_passed_db)"
proof -
  have sub: "fst ` set txouts_passed_db
               \<subseteq> set (set_order (coin_keys txins_db txouts_passed_db txouts_mint_db))"
    using enumerates_coin_keys [OF assms(1), of txins_db txouts_passed_db txouts_mint_db] by auto
  note db = balance_txouts_db [OF assms(3) assms(2) sub]
  have "map (\<lambda>(cn, outs). (cn, requested_left outs)) txouts_passed_db = txouts_passed_db"
    if none: "\<forall>cn. \<forall>r\<in>set (get_or_empty txouts_passed_db cn). txout.amount r \<noteq> - 1"
  proof (intro map_idI)
    fix p assume p: "p \<in> set txouts_passed_db"
    obtain cn outs where [simp]: "p = (cn, outs)" by (cases p)
    from p assms(2) have "map_of txouts_passed_db cn = Some outs" by simp
    then have "get_or_empty txouts_passed_db cn = outs" by (simp add: get_or_empty_def)
    with none have "\<forall>r\<in>set outs. txout.amount r \<noteq> - 1" by blast
    then have "requested_left outs = outs" by (simp add: requested_left_def)
    then show "(case p of (cn, outs) \<Rightarrow> (cn, requested_left outs)) = p" by simp
  qed
  with db show ?thesis by simp
qed

theorem balance_passed_db_counterexample:
  "fst (snd (balance_txouts (\<lambda>ks. ks) ''addr1''
          [\<lparr>txout.address = ''addr2'', txout.amount = - 1, txout.coin = ''lovelace''\<rparr>]
          [(''lovelace'', [\<lparr>utxo_hash = ''txA'', utxo_ix = 0, utxodata.amount = 1000,
                            utxodata.address = ''addr1'', utxodata.coin = ''lovelace'',
                            decoded_coin = '''', datum_hash = ''''\<rparr>])]
          [(''lovelace'', [\<lparr>txout.address = ''addr2'', txout.amount = - 1,
                            txout.coin = ''lovelace''\<rparr>])]
          [] 10 [] 0 False))
     \<noteq> [(''lovelace'', [\<lparr>txout.address = ''addr2'', txout.amount = - 1,
                            txout.coin = ''lovelace''\<rparr>])]
   \<and> fst (balance_txouts (\<lambda>ks. ks) ''addr1''
          [\<lparr>txout.address = ''addr2'', txout.amount = - 1, txout.coin = ''lovelace''\<rparr>]
          [(''lovelace'', [\<lparr>utxo_hash = ''txA'', utxo_ix = 0, utxodata.amount = 1000,
                            utxodata.address = ''addr1'', utxodata.coin = ''lovelace'',
                            decoded_coin = '''', datum_hash = ''''\<rparr>])]
          [(''lovelace'', [\<lparr>txout.address = ''addr2'', txout.amount = - 1,
                            txout.coin = ''lovelace''\<rparr>])]
          [] 10 [] 0 False)
     = Inr [\<lparr>txout.address = ''addr2'', txout.amount = 990, txout.coin = ''lovelace''\<rparr>]"
  by code_simp

theorem balance_passed_db_witness:
  "fst (snd (balance_txouts (\<lambda>ks. ks) ''addr1''
          [\<lparr>txout.address = ''addr2'', txout.amount = - 1, txout.coin = ''lovelace''\<rparr>,
           \<lparr>txout.address = ''addr3'', txout.amount = 5, txout.coin = ''lovelace''\<rparr>]
          [(''lovelace'', [\<lparr>utxo_hash = ''txA'', utxo_ix = 0, utxodata.amount = 1000,
                            utxodata.address = ''addr1'', utxodata.coin = ''lovelace'',
                            decoded_coin = '''', datum_hash = ''''\<rparr>])]
          [(''lovelace'', [\<lparr>txout.address = ''addr2'', txout.amount = - 1,
                            txout.coin = ''lovelace''\<rparr>,
                          \<lparr>txout.address = ''addr3'', txout.amount = 5,
                            txout.coin = ''lovelace''\<rparr>])]
          [] 10 [] 0 False))
     = [(''lovelace'', [\<lparr>txout.address = ''addr3'', txout.amount = 5, txout.coin = ''lovelace''\<rparr>])]"
proof -
  let ?I = "[(''lovelace'', [\<lparr>utxo_hash = ''txA'', utxo_ix = 0, utxodata.amount = 1000,
                            utxodata.address = ''addr1'', utxodata.coin = ''lovelace'',
                            decoded_coin = '''', datum_hash = ''''\<rparr>])]"
  let ?all = "\<lparr>txout.address = ''addr2'', txout.amount = - 1, txout.coin = ''lovelace''\<rparr>"
  let ?out = "\<lparr>txout.address = ''addr3'', txout.amount = 5, txout.coin = ''lovelace''\<rparr>"
  have d: "distinct (map fst [(''lovelace'', [?all, ?out])])" by simp
  have run: "fst (balance_txouts (\<lambda>ks. ks) ''addr1'' [?all, ?out] ?I [(''lovelace'', [?all, ?out])]
                   [] 10 [] 0 False)
     = Inr [?out, \<lparr>txout.address = ''addr2'', txout.amount = 985, txout.coin = ''lovelace''\<rparr>]"
    by code_simp
  from balance_passed_db [OF enumerates_id d run]
  show ?thesis by (simp add: requested_left_def)
qed

section \<open>More than one output of all remaining funds\<close>

text \<open>
  Claim C4, as amended. If the requested outputs hold more than one output of amount
  \<open>-1\<close> for the same coin and the external lookups answer, the orchestrator raises
  \<open>CLIError\<close>. The error is raised by the balancer, the last step: when no inputs were
  passed, the UTXOs of the address have been fetched (and the selector has run) before.
\<close>
theorem two_sentinels_raise:
  assumes "enumerates set_order"
    and "1 < length [r \<leftarrow> txouts. txout.coin r = cn \<and> txout.amount r = - 1]"
    and "cl_get_utxo clusterlib_obj src_address = Inr address_utxos"
    and "cl_get_tx_deposit clusterlib_obj tx_files = Inr d"
  shows "snd (get_tx_ins_outs set_order clusterlib_obj src_address tx_files txins_arg txouts fee
                deposit withdrawals mint_txouts lovelace_balanced) = Inl CLIError
     \<and> (txins_arg = None \<or> txins_arg = Some [] \<longrightarrow>
          (\<exists>evs. fst (get_tx_ins_outs set_order clusterlib_obj src_address tx_files txins_arg
                         txouts fee deposit withdrawals mint_txouts lovelace_balanced)
                  = Call_get_utxo src_address # evs))"
proof -
  let ?txins = "case txins_arg of None \<Rightarrow> [] | Some given \<Rightarrow> given"
  let ?P = "organize_txouts_by_coin txouts"
  let ?M = "organize_txouts_by_coin mint_txouts"
  let ?coins = "{DEFAULT_COIN} \<union> set (map fst ?M) \<union> set (map fst ?P)"
  define ev_utxo where "ev_utxo = (if ?txins \<noteq> [] then [] else [Call_get_utxo src_address])"
  define txins_all where
    "txins_all = (if ?txins \<noteq> [] then ?txins else get_utxos_with_coins address_utxos ?coins)"
  have f: "fetch_txins clusterlib_obj src_address ?txins ?coins = (ev_utxo, Inr txins_all)"
    unfolding fetch_txins_def ev_utxo_def txins_all_def assms(3) by simp
  have first: "txins_arg = None \<or> txins_arg = Some [] \<longrightarrow> ev_utxo = [Call_get_utxo src_address]"
    by (auto simp: ev_utxo_def)
  obtain ev_deposit tx_deposit where
    dp: "fetch_deposit clusterlib_obj tx_files deposit = (ev_deposit, Inr tx_deposit)"
    using assms(4) by (cases deposit) (auto simp: fetch_deposit_def)
  obtain txins_filtered txins_db_filtered where
    ft: "filter_txins set_order (cl_min_change_value clusterlib_obj) ?txins txins_all
           (organize_utxos_by_coin txins_all) ?P ?M fee withdrawals tx_deposit
         = (txins_filtered, txins_db_filtered)"
    by fastforce
  obtain res db logs where
    bal: "balance_txouts set_order src_address txouts txins_db_filtered ?P ?M fee withdrawals
            tx_deposit lovelace_balanced = (res, db, logs)"
    by (metis prod_cases3)
  have "fst (balance_txouts set_order src_address txouts txins_db_filtered ?P ?M fee withdrawals
            tx_deposit lovelace_balanced) = Inl CLIError"
    by (rule balance_txouts_raises, rule organize_two_sentinels [OF assms(1,2)])
  with bal have res: "res = Inl CLIError" by simp
  from get_tx_ins_outs_steps [OF f dp ft bal] res first show ?thesis by auto
qed

theorem two_sentinels_raise_counterexample:
  "get_tx_ins_outs (\<lambda>ks. ks)
     \<lparr>cl_get_utxo = (\<lambda>a. Inr []), cl_get_tx_deposit = (\<lambda>f. Inr 0), cl_min_change_value = 0\<rparr>
     ''addr1'' () None
     [\<lparr>txout.address = ''addr2'', txout.amount = - 1, txout.coin = ''lovelace''\<rparr>,
      \<lparr>txout.address = ''addr3'', txout.amount = - 1, txout.coin = ''lovelace''\<rparr>]
     10 (Some 0) [] [] False
   = ([Call_get_utxo ''addr1'', Logged No_input_utxo, Logged Empty_txins], Inl CLIError)"
  by code_simp

theorem two_sentinels_raise_witness:
  "snd (get_tx_ins_outs (\<lambda>ks. ks)
     \<lparr>cl_get_utxo = (\<lambda>a. Inr [\<lparr>utxo_hash = ''txA'', utxo_ix = 0, utxodata.amount = 1000,
                                utxodata.address = ''addr1'', utxodata.coin = ''lovelace'',
                                decoded_coin = '''', datum_hash = ''''\<rparr>]),
       cl_get_tx_deposit = (\<lambda>f. Inr 0), cl_min_change_value = 0\<rparr>
     ''addr1'' () None
     [\<lparr>txout.address = ''addr2'', txout.amount = - 1, txout.coin = ''lovelace''\<rparr>,
      \<lparr>txout.address = ''addr3'', txout.amount = - 1, txout.coin = ''lovelace''\<rparr>]
     10 (Some 0) [] [] False) = Inl CLIError"
proof -
  let ?u = "\<lparr>utxo_hash = ''txA'', utxo_ix = 0, utxodata.amount = 1000,
             utxodata.address = ''addr1'', utxodata.coin = ''lovelace'',
             decoded_coin = '''', datum_hash = ''''\<rparr>"
  let ?env = "\<lparr>cl_get_utxo = (\<lambda>a. Inr [?u]), cl_get_tx_deposit = (\<lambda>f :: unit. Inr 0 :: error + int),
               cl_min_change_value = 0\<rparr>"
  let ?txouts = "[\<lparr>txout.address = ''addr2'', txout.amount = - 1, txout.coin = ''lovelace''\<rparr>,
      \<lparr>txout.address = ''addr3'', txout.amount = - 1, txout.coin = ''lovelace''\<rparr>]"
  have two: "1 < length [r \<leftarrow> ?txouts. txout.coin r = ''lovelace'' \<and> txout.amount r = - 1]"
    by simp
  have u: "cl_get_utxo ?env ''addr1'' = Inr [?u]" by simp
  have d: "cl_get_tx_deposit ?env () = Inr 0" by simp
  from two_sentinels_raise [OF enumerates_id two u d, of None 10 "Some 0" "[]" "[]" False]
  show ?thesis by blast
qed

section \<open>An empty list of explicit inputs\<close>


section \<open>A single payment\<close>

text \<open>
  Claim C7. One UTXO \<open>txA#0\<close> of 1000 of the base coin at \<open>addr1\<close>, one requested
  output of 300 to \<open>addr2\<close>, fee 10, deposit 0, no withdrawals, no minting, minimum change
  value 0, no explicit inputs: the orchestrator selects the UTXO and returns the
  requested output followed by the change of 690 to \<open>addr1\<close>, in whatever order sets
  are enumerated.
\<close>
theorem single_payment_scenario:
  assumes "enumerates set_order"
  shows "get_tx_ins_outs set_order
     \<lparr>cl_get_utxo = (\<lambda>a. Inr [\<lparr>utxo_hash = ''txA'', utxo_ix = 0, utxodata.amount = 1000,
                                utxodata.address = ''addr1'', utxodata.coin = ''lovelace'',
                                decoded_coin = '''', datum_hash = ''''\<rparr>]),
       cl_get_tx_deposit = (\<lambda>f. Inr 0), cl_min_change_value = 0\<rparr>
     ''addr1'' tx_files None
     [\<lparr>txout.address = ''addr2'', txout.amount = 300, txout.coin = ''lovelace''\<rparr>]
     10 (Some 0) [] [] False
   = ([Call_get_utxo ''addr1''],
      Inr ([\<lparr>utxo_hash = ''txA'', utxo_ix = 0, utxodata.amount = 1000,
             utxodata.address = ''addr1'', utxodata.coin = ''lovelace'',
             decoded_coin = '''', datum_hash = ''''\<rparr>],
           [\<lparr>txout.address = ''addr2'', txout.amount = 300, txout.coin = ''lovelace''\<rparr>,
            \<lparr>txout.address = ''addr1'', txout.amount = 690, txout.coin = ''lovelace''\<rparr>]))"
proof -
  let ?u = "\<lparr>utxo_hash = ''txA'', utxo_ix = 0, utxodata.amount = 1000,
             utxodata.address = ''addr1'', utxodata.coin = ''lovelace'',
             decoded_coin = '''', datum_hash = ''''\<rparr>"
  let ?out = "\<lparr>txout.address = ''addr2'', txout.amount = 300, txout.coin = ''lovelace''\<rparr>"
  let ?change = "\<lparr>txout.address = ''addr1'', txout.amount = 690, txout.coin = ''lovelace''\<rparr>"
  let ?I = "organize_utxos_by_coin [?u]"
  let ?P = "organize_txouts_by_coin [?out]"
  let ?M = "organize_txouts_by_coin []"
  let ?env = "\<lparr>cl_get_utxo = (\<lambda>a. Inr [?u]), cl_get_tx_deposit = (\<lambda>f :: 'a. Inr 0 :: error + int),
               cl_min_change_value = 0\<rparr>"
  have f: "fetch_txins ?env ''addr1'' (case None of None \<Rightarrow> [] | Some given \<Rightarrow> given)
             ({DEFAULT_COIN} \<union> set (map fst ?M) \<union> set (map fst ?P))
           = ([Call_get_utxo ''addr1''], Inr [?u])"
    by code_simp
  have dp: "fetch_deposit ?env tx_files (Some 0) = ([], Inr 0)"
    by (simp add: fetch_deposit_def)
  have k: "coin_keys ?I ?P ?M = [''lovelace'']" by code_simp
  have "filter_txins (\<lambda>ks. ks) 0 [] [?u] ?I ?P ?M 10 [] 0 = ([?u], ?I)" by code_simp
  then have ft: "filter_txins set_order (cl_min_change_value ?env)
                   (case None of None \<Rightarrow> [] | Some given \<Rightarrow> given) [?u] ?I ?P ?M 10 [] 0
                 = ([?u], ?I)"
    by (simp add: filter_txins_single [OF assms k])
  have "balance_txouts (\<lambda>ks. ks) ''addr1'' [?out] ?I ?P ?M 10 [] 0 False
        = (Inr [?out, ?change], ?P, [])"
    by code_simp
  then have bal: "balance_txouts set_order ''addr1'' [?out] ?I ?P ?M 10 [] 0 False
                  = (Inr [?out, ?change], ?P, [])"
    by (simp only: balance_txouts_single [OF assms k])
  have c: "check_txins [?u] ?I (DEFAULT_COIN # map fst ?P) ?M = []" by code_simp
  from get_tx_ins_outs_steps [OF f dp ft bal] show ?thesis
    unfolding c by simp
qed

theorem single_payment_scenario_witness:
  "get_tx_ins_outs (\<lambda>ks. ks)
     \<lparr>cl_get_utxo = (\<lambda>a. Inr [\<lparr>utxo_hash = ''txA'', utxo_ix = 0, utxodata.amount = 1000,
                                utxodata.address = ''addr1'', utxodata.coin = ''lovelace'',
                                decoded_coin = '''', datum_hash = ''''\<rparr>]),
       cl_get_tx_deposit = (\<lambda>f. Inr 0), cl_min_change_value = 0\<rparr>
     ''addr1'' () None
     [\<lparr>txout.address = ''addr2'', txout.amount = 300, txout.coin = ''lovelace''\<rparr>]
     10 (Some 0) [] [] False
   = ([Call_get_utxo ''addr1''],
      Inr ([\<lparr>utxo_hash = ''txA'', utxo_ix = 0, utxodata.amount = 1000,
             utxodata.address = ''addr1'', utxodata.coin = ''lovelace'',
             decoded_coin = '''', datum_hash = ''''\<rparr>],
           [\<lparr>txout.address = ''addr2'', txout.amount = 300, txout.coin = ''lovelace''\<rparr>,
            \<lparr>txout.address = ''addr1'', txout.amount = 690, txout.coin = ''lovelace''\<rparr>]))"
  by (rule single_payment_scenario [OF enumerates_id])

section \<open>Coin identifiers of decoded assets\<close>

text \<open>
  Claim C9. For an entry \<^verbatim>\<open>"hash#ix"\<close> whose index parses and a policy other than the
  base coin, the loop over the assets never fails, whatever the asset names are: it
  appends one record per asset, for both shapes of the asset collection. The coin
  identifier of each record is the policy id followed by a dot and the asset name as it
  stands, or the bare policy id for the empty name, whether or not the name decodes;
  when the name does not decode, the decoded coin is left empty.
\<close>
theorem asset_coin_identifier:
  assumes "split_hash_ix utxo_rec = Some (h, ix_text)" and "py_int ix_text = Some ix"
    and "policyid \<noteq> DEFAULT_COIN"
  shows "asset_loop h ix_text addr utxo_address dhash policyid assets utxo
           = Inr (utxo @ map (asset_utxo h ix addr utxo_address dhash policyid) assets)
     \<and> get_utxo [(utxo_rec, \<lparr>entry_address = ea, entry_value = Some [(policyid, Coin_list assets)],
                              entry_data = ed, entry_datumhash = edh\<rparr>)] addr []
           = Inr (map (asset_utxo h ix addr (str_or ea []) (str_or ed (str_or edh [])) policyid) assets)
     \<and> get_utxo [(utxo_rec, \<lparr>entry_address = ea, entry_value = Some [(policyid, Coin_dict assets)],
                              entry_data = ed, entry_datumhash = edh\<rparr>)] addr []
           = Inr (map (asset_utxo h ix addr (str_or ea []) (str_or ed (str_or edh [])) policyid) assets)
     \<and> utxodata.coin (asset_utxo h ix addr utxo_address dhash policyid (asset_name, amnt))
           = (if asset_name = [] then policyid else policyid @ ''.'' @ asset_name)
     \<and> (asset_name \<noteq> [] \<and> decode_asset_name asset_name = None \<longrightarrow>
          decoded_coin (asset_utxo h ix addr utxo_address dhash policyid (asset_name, amnt)) = [])"
  using assms by (simp add: asset_loop_result get_utxo_def asset_utxo_def Let_def)

theorem asset_coin_identifier_witness:
  "get_utxo [(''txA#0'',
              \<lparr>entry_address = Some ''addr1'',
                entry_value = Some [(''pol'', Coin_list [(''ff'', 3), (''544f4b'', 4), ('''', 5)])],
                entry_data = None, entry_datumhash = None\<rparr>)] [] []
   = Inr [\<lparr>utxo_hash = ''txA'', utxo_ix = 0, utxodata.amount = 3, utxodata.address = ''addr1'',
            utxodata.coin = ''pol.ff'', decoded_coin = '''', datum_hash = ''''\<rparr>,
          \<lparr>utxo_hash = ''txA'', utxo_ix = 0, utxodata.amount = 4, utxodata.address = ''addr1'',
            utxodata.coin = ''pol.544f4b'', decoded_coin = ''pol.TOK'', datum_hash = ''''\<rparr>,
          \<lparr>utxo_hash = ''txA'', utxo_ix = 0, utxodata.amount = 5, utxodata.address = ''addr1'',
            utxodata.coin = ''pol'', decoded_coin = ''pol'', datum_hash = ''''\<rparr>]"
proof -
  have h1: "split_hash_ix ''txA#0'' = Some (''txA'', ''0'')" by code_simp
  have h2: "py_int ''0'' = Some 0" by code_simp
  have h3: "''pol'' \<noteq> DEFAULT_COIN" by (simp add: DEFAULT_COIN_def)
  have recs: "map (asset_utxo ''txA'' 0 [] (str_or (Some ''addr1'') []) (str_or None (str_or None [])) ''pol'')
                [(''ff'', 3), (''544f4b'', 4), ('''', 5)]
    = [\<lparr>utxo_hash = ''txA'', utxo_ix = 0, utxodata.amount = 3, utxodata.address = ''addr1'',
            utxodata.coin = ''pol.ff'', decoded_coin = '''', datum_hash = ''''\<rparr>,
          \<lparr>utxo_hash = ''txA'', utxo_ix = 0, utxodata.amount = 4, utxodata.address = ''addr1'',
            utxodata.coin = ''pol.544f4b'', decoded_coin = ''pol.TOK'', datum_hash = ''''\<rparr>,
          \<lparr>utxo_hash = ''txA'', utxo_ix = 0, utxodata.amount = 5, utxodata.address = ''addr1'',
            utxodata.coin = ''pol'', decoded_coin = ''pol'', datum_hash = ''''\<rparr>]"
    by code_simp
  from asset_coin_identifier [OF h1 h2 h3, THEN conjunct2, THEN conjunct1,
      of "Some ''addr1''" "[(''ff'', 3), (''544f4b'', 4), ('''', 5)]" None None "[]"]
  show ?thesis unfolding recs .
qed

section \<open>Base-coin change and the minimum change value\<close>

text \<open>
  Claim C5, as amended. Let no inputs be passed, let the UTXOs of the address all be of
  the base coin with pairwise different identifiers, let no requested output of the base
  coin have the amount \<open>-1\<close>, let the fee be at least 1 and the withdrawals at most the
  requested base-coin outputs plus the deposit. When the orchestrator returns, the
  inputs are the collector's result for outputs + fee + deposit - withdrawals, and the
  base-coin change of the balancer is 0, or at least the minimum change value, or every
  UTXO of the address has been selected. A positive change is an output to the source
  address.
\<close>
theorem base_coin_change_bound:
  assumes "enumerates set_order"
    and "txins_arg = None \<or> txins_arg = Some []"
    and "cl_get_utxo clusterlib_obj src_address = Inr utxos"
    and "\<forall>u\<in>set utxos. utxodata.coin u = DEFAULT_COIN"
    and "distinct (map utxo_id utxos)"
    and "\<forall>r\<in>set txouts. txout.coin r = DEFAULT_COIN \<longrightarrow> txout.amount r \<noteq> - 1"
    and "1 \<le> fee"
    and "reduce_amount txout.amount withdrawals
           \<le> reduce_amount txout.amount [r \<leftarrow> txouts. txout.coin r = DEFAULT_COIN] + d"
    and "snd (fetch_deposit clusterlib_obj tx_files deposit) = Inr d"
    and "snd (get_tx_ins_outs set_order clusterlib_obj src_address tx_files txins_arg txouts fee
                deposit withdrawals mint_txouts False) = Inr (ins, outs)"
    and "change = reduce_amount utxodata.amount ins + reduce_amount txout.amount withdrawals
                  - reduce_amount txout.amount [r \<leftarrow> txouts. txout.coin r = DEFAULT_COIN]
                  - fee - d"
  shows "ins = collect_utxos_amount utxos
                 (reduce_amount txout.amount [r \<leftarrow> txouts. txout.coin r = DEFAULT_COIN]
                    + fee + d - reduce_amount txout.amount withdrawals)
                 (cl_min_change_value clusterlib_obj)
     \<and> change_of (organize_utxos_by_coin ins) (organize_txouts_by_coin txouts)
          (organize_txouts_by_coin mint_txouts) fee withdrawals d False DEFAULT_COIN = change
     \<and> (change = 0 \<or> cl_min_change_value clusterlib_obj \<le> change \<or> ins = utxos)
     \<and> (0 < change \<longrightarrow>
          \<lparr>txout.address = src_address, txout.amount = change, txout.coin = DEFAULT_COIN\<rparr>
            \<in> set outs)"
proof -
  let ?txins = "case txins_arg of None \<Rightarrow> [] | Some given \<Rightarrow> given"
  let ?P = "organize_txouts_by_coin txouts"
  let ?M = "organize_txouts_by_coin mint_txouts"
  let ?coins = "{DEFAULT_COIN} \<union> set (map fst ?M) \<union> set (map fst ?P)"
  let ?bo = "[r \<leftarrow> txouts. txout.coin r = DEFAULT_COIN]"
  let ?mcv = "cl_min_change_value clusterlib_obj"
  let ?need = "reduce_amount txout.amount ?bo + fee + d - reduce_amount txout.amount withdrawals"
  define c where "c = collect_utxos_amount utxos ?need ?mcv"
  have txins: "?txins = []" using assms(2) by auto
  have bo: "get_or_empty ?P DEFAULT_COIN = ?bo"
    by (simp add: organize_txouts_by_coin_def get_or_empty_organize_by)
  have nosent: "\<forall>r\<in>set ?bo. txout.amount r \<noteq> - 1" using assms(6) by simp
  have need: "input_funds_needed DEFAULT_COIN ?bo ?M fee withdrawals d = ?need"
    using assms(7,8) by (simp add: input_funds_needed_def Let_def)
  have f: "fetch_txins clusterlib_obj src_address ?txins ?coins
           = ([Call_get_utxo src_address], Inr utxos)"
    unfolding txins fetch_txins_def assms(3)
    using assms(4,5) by (simp add: get_utxos_with_coins_all)
  have dp: "fetch_deposit clusterlib_obj tx_files deposit
            = (fst (fetch_deposit clusterlib_obj tx_files deposit), Inr d)"
    using assms(9) by (metis prod.collapse)
  have ft: "filter_txins set_order ?mcv ?txins utxos (organize_utxos_by_coin utxos) ?P ?M fee
              withdrawals d = (c, organize_utxos_by_coin c)"
    unfolding txins
    by (rule filter_txins_base_only [OF assms(1,4,5)]) (simp_all add: bo nosent need c_def)
  obtain res db logs where
    bal: "balance_txouts set_order src_address txouts (organize_utxos_by_coin c) ?P ?M fee
            withdrawals d False = (res, db, logs)"
    by (metis prod_cases3)
  from get_tx_ins_outs_steps [OF f dp ft bal] assms(10)
  have res: "res = Inr outs" and ins: "ins = c"
    by (auto split: sum.splits)
  obtain k where k: "c = take k utxos" using collect_is_prefix c_def by blast
  then have cbase: "\<forall>u\<in>set c. utxodata.coin u = DEFAULT_COIN"
    using assms(4) by (auto dest: in_set_takeD)
  have ch: "change_of (organize_utxos_by_coin c) ?P ?M fee withdrawals d False DEFAULT_COIN = change"
    using assms(7)
    by (simp add: change_of_def coin_change_def Let_def bo requested_left_no_sentinel [OF nosent]
          get_or_empty_base_only [OF cbase] assms(11) ins)
  have change: "change = reduce_amount utxodata.amount c - ?need"
    by (simp add: assms(11) ins)
  from collect_base_trichotomy [OF assms(4) c_def]
  have tri: "change = 0 \<or> ?mcv \<le> change \<or> c = utxos"
    unfolding change by auto
  have out: "\<lparr>txout.address = src_address, txout.amount = change, txout.coin = DEFAULT_COIN\<rparr>
               \<in> set outs" if pos: "0 < change"
  proof -
    have "c \<noteq> []"
    proof
      assume "c = []"
      with change assms(7,8) have "change < 0" by simp
      with pos show False by simp
    qed
    then have "DEFAULT_COIN \<in> utxodata.coin ` set c" using cbase by (cases c) auto
    then have "DEFAULT_COIN \<in> fst ` set (organize_utxos_by_coin c)"
      using keys_organize_by [of utxodata.coin c] by (simp add: organize_utxos_by_coin_def)
    then have mem: "DEFAULT_COIN \<in> set (set_order (coin_keys (organize_utxos_by_coin c) ?P ?M))"
      using enumerates_coin_keys [OF assms(1), of "organize_utxos_by_coin c" ?P ?M] by blast
    have d: "distinct (set_order (coin_keys (organize_utxos_by_coin c) ?P ?M))"
      using enumerates_coin_keys [OF assms(1)] by blast
    have "fst (balance_txouts set_order src_address txouts (organize_utxos_by_coin c) ?P ?M fee
            withdrawals d False) = Inr outs"
      using bal res by simp
    note outs = balance_txouts_result [OF this d]
    have "change_txouts src_address (organize_utxos_by_coin c) ?P ?M fee withdrawals d False
            DEFAULT_COIN
          = [\<lparr>txout.address = src_address, txout.amount = change, txout.coin = DEFAULT_COIN\<rparr>]"
      using pos
      by (simp add: change_txouts_def ch Let_def bo change_destination_no_sentinel [OF nosent]
            address_or_def)
    with mem show ?thesis unfolding outs by force
  qed
  from ch tri out show ?thesis by (simp add: ins c_def)
qed

theorem base_coin_change_bound_counterexample:
  "get_tx_ins_outs (\<lambda>ks. ks)
     \<lparr>cl_get_utxo = (\<lambda>a. Inr [\<lparr>utxo_hash = ''txA'', utxo_ix = 0, utxodata.amount = 1000,
                                utxodata.address = ''addr1'', utxodata.coin = ''lovelace'',
                                decoded_coin = '''', datum_hash = ''''\<rparr>]),
       cl_get_tx_deposit = (\<lambda>f. Inr 0), cl_min_change_value = 500\<rparr>
     ''addr1'' () None
     [\<lparr>txout.address = ''addr2'', txout.amount = 900, txout.coin = ''lovelace''\<rparr>]
     10 (Some 0) [] [] False
   = ([Call_get_utxo ''addr1''],
      Inr ([\<lparr>utxo_hash = ''txA'', utxo_ix = 0, utxodata.amount = 1000,
             utxodata.address = ''addr1'', utxodata.coin = ''lovelace'',
             decoded_coin = '''', datum_hash = ''''\<rparr>],
           [\<lparr>txout.address = ''addr2'', txout.amount = 900, txout.coin = ''lovelace''\<rparr>,
            \<lparr>txout.address = ''addr1'', txout.amount = 90, txout.coin = ''lovelace''\<rparr>]))
   \<and> (0 :: int) < 90 \<and> (90 :: int) < 500"
  by code_simp

theorem base_coin_change_bound_witness:
  "snd (get_tx_ins_outs (\<lambda>ks. ks)
     \<lparr>cl_get_utxo = (\<lambda>a. Inr [\<lparr>utxo_hash = ''txA'', utxo_ix = 0, utxodata.amount = 1000,
                                utxodata.address = ''addr1'', utxodata.coin = ''lovelace'',
                                decoded_coin = '''', datum_hash = ''''\<rparr>,
                              \<lparr>utxo_hash = ''txB'', utxo_ix = 0, utxodata.amount = 2000,
                                utxodata.address = ''addr1'', utxodata.coin = ''lovelace'',
                                decoded_coin = '''', datum_hash = ''''\<rparr>]),
       cl_get_tx_deposit = (\<lambda>f. Inr 0), cl_min_change_value = 500\<rparr>
     ''addr1'' () None
     [\<lparr>txout.address = ''addr2'', txout.amount = 300, txout.coin = ''lovelace''\<rparr>]
     10 (Some 0) [] [] False)
   = Inr ([\<lparr>utxo_hash = ''txA'', utxo_ix = 0, utxodata.amount = 1000,
             utxodata.address = ''addr1'', utxodata.coin = ''lovelace'',
             decoded_coin = '''', datum_hash = ''''\<rparr>],
           [\<lparr>txout.address = ''addr2'', txout.amount = 300, txout.coin = ''lovelace''\<rparr>,
            \<lparr>txout.address = ''addr1'', txout.amount = 690, txout.coin = ''lovelace''\<rparr>])
   \<and> change_of
         (organize_utxos_by_coin
            [\<lparr>utxo_hash = ''txA'', utxo_ix = 0, utxodata.amount = 1000,
               utxodata.address = ''addr1'', utxodata.coin = ''lovelace'',
               decoded_coin = '''', datum_hash = ''''\<rparr>])
         (organize_txouts_by_coin
            [\<lparr>txout.address = ''addr2'', txout.amount = 300, txout.coin = ''lovelace''\<rparr>])
         (organize_txouts_by_coin []) 10 [] 0 False DEFAULT_COIN = 690"
proof -
  let ?a = "\<lparr>utxo_hash = ''txA'', utxo_ix = 0, utxodata.amount = 1000,
             utxodata.address = ''addr1'', utxodata.coin = ''lovelace'',
             decoded_coin = '''', datum_hash = ''''\<rparr>"
  let ?b = "\<lparr>utxo_hash = ''txB'', utxo_ix = 0, utxodata.amount = 2000,
             utxodata.address = ''addr1'', utxodata.coin = ''lovelace'',
             decoded_coin = '''', datum_hash = ''''\<rparr>"
  let ?out = "\<lparr>txout.address = ''addr2'', txout.amount = 300, txout.coin = ''lovelace''\<rparr>"
  let ?change = "\<lparr>txout.address = ''addr1'', txout.amount = 690, txout.coin = ''lovelace''\<rparr>"
  let ?env = "\<lparr>cl_get_utxo = (\<lambda>a. Inr [?a, ?b]), cl_get_tx_deposit = (\<lambda>f :: unit. Inr 0 :: error + int),
               cl_min_change_value = 500\<rparr>"
  have h2: "(None :: utxodata list option) = None \<or> (None :: utxodata list option) = Some []" by simp
  have h3: "cl_get_utxo ?env ''addr1'' = Inr [?a, ?b]" by simp
  have h4: "\<forall>u\<in>set [?a, ?b]. utxodata.coin u = DEFAULT_COIN" by (simp add: DEFAULT_COIN_def)
  have h5: "distinct (map utxo_id [?a, ?b])" by code_simp
  have h6: "\<forall>r\<in>set [?out]. txout.coin r = DEFAULT_COIN \<longrightarrow> txout.amount r \<noteq> - 1" by simp
  have h7: "(1 :: int) \<le> 10" by simp
  have h8: "reduce_amount txout.amount []
              \<le> reduce_amount txout.amount [r \<leftarrow> [?out]. txout.coin r = DEFAULT_COIN] + 0"
    by (simp add: DEFAULT_COIN_def)
  have h9: "snd (fetch_deposit ?env () (Some 0)) = Inr 0" by (simp add: fetch_deposit_def)
  have h10: "snd (get_tx_ins_outs (\<lambda>ks. ks) ?env ''addr1'' () None [?out] 10 (Some 0) [] [] False)
             = Inr ([?a], [?out, ?change])"
    by code_simp
  have h11: "690 = reduce_amount utxodata.amount [?a] + reduce_amount txout.amount []
                   - reduce_amount txout.amount [r \<leftarrow> [?out]. txout.coin r = DEFAULT_COIN]
                   - 10 - 0"
    by (simp add: DEFAULT_COIN_def)
  note bound = base_coin_change_bound [OF enumerates_id h2 h3 h4 h5 h6 h7 h8 h9 h10 h11]
  show ?thesis by (rule conjI [OF h10 bound [THEN conjunct2, THEN conjunct1]])
qed

text \<open>
  Each of the other conditions is needed as well: with the default fee 0 the selector
  asks for one unit more than the balancer spends; withdrawals above the outputs leave
  the selector asking for the fee only; and a UTXO selected for a token brings its base
  coin along.
\<close>
lemma change_below_minimum_default_fee:
  "get_tx_ins_outs (\<lambda>ks. ks)
     \<lparr>cl_get_utxo = (\<lambda>a. Inr [\<lparr>utxo_hash = ''txA'', utxo_ix = 0, utxodata.amount = 301,
                                utxodata.address = ''addr1'', utxodata.coin = ''lovelace'',
                                decoded_coin = '''', datum_hash = ''''\<rparr>,
                              \<lparr>utxo_hash = ''txB'', utxo_ix = 0, utxodata.amount = 5000,
                                utxodata.address = ''addr1'', utxodata.coin = ''lovelace'',
                                decoded_coin = '''', datum_hash = ''''\<rparr>]),
       cl_get_tx_deposit = (\<lambda>f. Inr 0), cl_min_change_value = 1000\<rparr>
     ''addr1'' () None
     [\<lparr>txout.address = ''addr2'', txout.amount = 300, txout.coin = ''lovelace''\<rparr>]
     0 (Some 0) [] [] False
   = ([Call_get_utxo ''addr1''],
      Inr ([\<lparr>utxo_hash = ''txA'', utxo_ix = 0, utxodata.amount = 301,
             utxodata.address = ''addr1'', utxodata.coin = ''lovelace'',
             decoded_coin = '''', datum_hash = ''''\<rparr>],
           [\<lparr>txout.address = ''addr2'', txout.amount = 300, txout.coin = ''lovelace''\<rparr>,
            \<lparr>txout.address = ''addr1'', txout.amount = 1, txout.coin = ''lovelace''\<rparr>]))"
  by code_simp

lemma change_below_minimum_withdrawals:
  "get_tx_ins_outs (\<lambda>ks. ks)
     \<lparr>cl_get_utxo = (\<lambda>a. Inr [\<lparr>utxo_hash = ''txA'', utxo_ix = 0, utxodata.amount = 10,
                                utxodata.address = ''addr1'', utxodata.coin = ''lovelace'',
                                decoded_coin = '''', datum_hash = ''''\<rparr>,
                              \<lparr>utxo_hash = ''txB'', utxo_ix = 0, utxodata.amount = 5000,
                                utxodata.address = ''addr1'', utxodata.coin = ''lovelace'',
                                decoded_coin = '''', datum_hash = ''''\<rparr>]),
       cl_get_tx_deposit = (\<lambda>f. Inr 0), cl_min_change_value = 10000\<rparr>
     ''addr1'' () None
     [\<lparr>txout.address = ''addr2'', txout.amount = 300, txout.coin = ''lovelace''\<rparr>]
     10 (Some 0)
     [\<lparr>txout.address = ''stake1'', txout.amount = 1000, txout.coin = ''lovelace''\<rparr>] [] False
   = ([Call_get_utxo ''addr1''],
      Inr ([\<lparr>utxo_hash = ''txA'', utxo_ix = 0, utxodata.amount = 10,
             utxodata.address = ''addr1'', utxodata.coin = ''lovelace'',
             decoded_coin = '''', datum_hash = ''''\<rparr>],
           [\<lparr>txout.address = ''addr2'', txout.amount = 300, txout.coin = ''lovelace''\<rparr>,
            \<lparr>txout.address = ''addr1'', txout.amount = 700, txout.coin = ''lovelace''\<rparr>]))"
  by code_simp

lemma change_below_minimum_token_inputs:
  "get_tx_ins_outs (\<lambda>ks. ks)
     \<lparr>cl_get_utxo = (\<lambda>a. Inr [\<lparr>utxo_hash = ''txA'', utxo_ix = 0, utxodata.amount = 310,
                                utxodata.address = ''addr1'', utxodata.coin = ''lovelace'',
                                decoded_coin = '''', datum_hash = ''''\<rparr>,
                              \<lparr>utxo_hash = ''txB'', utxo_ix = 0, utxodata.amount = 2,
                                utxodata.address = ''addr1'', utxodata.coin = ''lovelace'',
                                decoded_coin = '''', datum_hash = ''''\<rparr>,
                              \<lparr>utxo_hash = ''txB'', utxo_ix = 0, utxodata.amount = 5,
                                utxodata.address = ''addr1'', utxodata.coin = ''tok'',
                                decoded_coin = '''', datum_hash = ''''\<rparr>]),
       cl_get_tx_deposit = (\<lambda>f. Inr 0), cl_min_change_value = 1000\<rparr>
     ''addr1'' () None
     [\<lparr>txout.address = ''addr2'', txout.amount = 300, txout.coin = ''lovelace''\<rparr>,
      \<lparr>txout.address = ''addr2'', txout.amount = 5, txout.coin = ''tok''\<rparr>]
     10 (Some 0) [] [] False
   = ([Call_get_utxo ''addr1''],
      Inr ([\<lparr>utxo_hash = ''txA'', utxo_ix = 0, utxodata.amount = 310,
             utxodata.address = ''addr1'', utxodata.coin = ''lovelace'',
             decoded_coin = '''', datum_hash = ''''\<rparr>,
            \<lparr>utxo_hash = ''txB'', utxo_ix = 0, utxodata.amount = 2,
             utxodata.address = ''addr1'', utxodata.coin = ''lovelace'',
             decoded_coin = '''', datum_hash = ''''\<rparr>,
            \<lparr>utxo_hash = ''txB'', utxo_ix = 0, utxodata.amount = 5,
             utxodata.address = ''addr1'', utxodata.coin = ''tok'',
             decoded_coin = '''', datum_hash = ''''\<rparr>],
           [\<lparr>txout.address = ''addr2'', txout.amount = 300, txout.coin = ''lovelace''\<rparr>,
            \<lparr>txout.address = ''addr2'', txout.amount = 5, txout.coin = ''tok''\<rparr>,
            \<lparr>txout.address = ''addr1'', txout.amount = 2, txout.coin = ''lovelace''\<rparr>]))"
  by code_simp

end
